theory Spec2Isabelle
  imports Complex_Main "HOL-Library.Word" "HOL-Library.Sublist"
begin

unbundle bit_operations_syntax

section \<open>JavaScript values\<close>

text \<open>
  Strings are byte sequences (the UTF-8 encoding of the JavaScript string), numbers are
  reals. A JSON value is what \<open>response.json()\<close> and \<open>JSON.parse\<close> produce; an object
  is the list of its properties in order, with distinct keys. A property that is absent
  reads as \<open>undefined\<close>, which is \<open>None\<close> here.
\<close>

datatype json =
    JNull
  | JBool bool
  | JNum real
  | JStr string
  | JArr "json list"
  | JObj "(string \<times> json) list"

type_synonym jsobject = "(string \<times> json) list"

type_synonym jsvalue = "json option"

text \<open>Truthiness of a value: \<open>undefined\<close>, \<open>null\<close>, \<open>false\<close>, \<open>0\<close> and \<open>""\<close> are falsy.\<close>

fun truthy :: "jsvalue \<Rightarrow> bool" where
  "truthy None = False"
| "truthy (Some JNull) = False"
| "truthy (Some (JBool b)) = b"
| "truthy (Some (JNum x)) = (x \<noteq> 0)"
| "truthy (Some (JStr s)) = (s \<noteq> [])"
| "truthy (Some (JArr _)) = True"
| "truthy (Some (JObj _)) = True"

text \<open>\<open>a || b\<close> where \<open>b\<close> is a defined value.\<close>

definition or_else :: "jsvalue \<Rightarrow> json \<Rightarrow> json" where
  "or_else a b = (case a of None \<Rightarrow> b | Some v \<Rightarrow> if truthy (Some v) then v else b)"

text \<open>Reading the property \<open>k\<close> of an object: \<open>o.k\<close>.\<close>

definition get_prop :: "jsobject \<Rightarrow> string \<Rightarrow> jsvalue" where
  "get_prop obj k = map_of obj k"

text \<open>
  Reading from a JSON value \<open>v\<close> one of the properties \<open>error\<close>, \<open>message\<close>, \<open>id\<close>,
  \<open>type\<close>, \<open>createdAt\<close>, which only an object can have: \<open>undefined\<close> on primitives,
  strings and arrays. On \<open>null\<close>, \<open>v?.k\<close> is \<open>undefined\<close> too (and \<open>v.k\<close> throws, which
  the caller models).
\<close>

fun opt_prop :: "json \<Rightarrow> string \<Rightarrow> jsvalue" where
  "opt_prop (JObj kvs) k = get_prop kvs k"
| "opt_prop _ k = None"

text \<open>Decimal rendering of a natural number, as in a template literal.\<close>

definition digit_char :: "nat \<Rightarrow> char" where
  "digit_char d = ''0123456789'' ! d"

fun show_nat :: "nat \<Rightarrow> string" where
  "show_nat n = (if n < 10 then [digit_char n] else show_nat (n div 10) @ [digit_char (n mod 10)])"

declare show_nat.simps [simp del]

text \<open>
  The own enumerable properties copied by an object spread \<open>{...v}\<close>: those of an
  object, the indexed elements of an array or of a string, none for other values.
\<close>

fun spread :: "json \<Rightarrow> jsobject" where
  "spread (JObj kvs) = kvs"
| "spread (JArr xs) = map (\<lambda>i. (show_nat i, xs ! i)) [0..<length xs]"
| "spread (JStr s) = map (\<lambda>i. (show_nat i, JStr [s ! i])) [0..<length s]"
| "spread _ = []"

text \<open>
  Writing the property \<open>k\<close> in an object literal after a spread: an existing property
  keeps its place and takes the new value, a new one is added at the end.
\<close>

fun set_prop :: "string \<Rightarrow> json \<Rightarrow> jsobject \<Rightarrow> jsobject" where
  "set_prop k v [] = [(k, v)]"
| "set_prop k v (p # ps) = (if fst p = k then (k, v) # ps else p # set_prop k v ps)"

text \<open>\<open>String.prototype.includes\<close>.\<close>

fun str_includes :: "string \<Rightarrow> string \<Rightarrow> bool" where
  "str_includes [] sub = (sub = [])"
| "str_includes (c # cs) sub = (prefix sub (c # cs) \<or> str_includes cs sub)"

section \<open>Error taxonomy (src/errors.ts)\<close>

text \<open>
  The classes \<open>SendlyError\<close> (\<open>Generic\<close>), \<open>AuthenticationError\<close>, \<open>RateLimitError\<close>,
  \<open>InsufficientCreditsError\<close>, \<open>ValidationError\<close>, \<open>NotFoundError\<close>, \<open>NetworkError\<close>
  and \<open>TimeoutError\<close>. Each subclass extends \<open>SendlyError\<close>, so every value of
  \<open>sendly_error\<close> is an instance of \<open>SendlyError\<close>; \<open>kind\<close> is the class, with the
  fields only that class has.
\<close>

datatype error_kind =
    Generic
  | Authentication
  | RateLimit (retryAfter: json)
  | InsufficientCredits (creditsNeeded: json) (currentBalance: json)
  | Validation
  | NotFound
  | Network
  | Timeout

record sendly_error =
  kind :: error_kind
  message :: json
  code :: json
  statusCode :: "nat option"
  response :: "jsobject option"

definition new_SendlyError :: "json \<Rightarrow> json \<Rightarrow> nat option \<Rightarrow> jsobject option \<Rightarrow> sendly_error" where
  "new_SendlyError msg c sc resp =
     \<lparr>kind = Generic, message = msg, code = c, statusCode = sc, response = resp\<rparr>"

definition new_AuthenticationError :: "json \<Rightarrow> json \<Rightarrow> nat option \<Rightarrow> jsobject option \<Rightarrow> sendly_error" where
  "new_AuthenticationError msg c sc resp = (new_SendlyError msg c sc resp)\<lparr>kind := Authentication\<rparr>"

definition new_RateLimitError :: "json \<Rightarrow> json \<Rightarrow> nat option \<Rightarrow> jsobject option \<Rightarrow> sendly_error" where
  "new_RateLimitError msg ra sc resp =
     (new_SendlyError msg (JStr ''rate_limit_exceeded'') sc resp)\<lparr>kind := RateLimit ra\<rparr>"

definition new_InsufficientCreditsError ::
    "json \<Rightarrow> json \<Rightarrow> json \<Rightarrow> nat option \<Rightarrow> jsobject option \<Rightarrow> sendly_error" where
  "new_InsufficientCreditsError msg needed balance sc resp =
     (new_SendlyError msg (JStr ''insufficient_credits'') sc resp)
       \<lparr>kind := InsufficientCredits needed balance\<rparr>"

definition new_ValidationError :: "json \<Rightarrow> json \<Rightarrow> nat option \<Rightarrow> jsobject option \<Rightarrow> sendly_error" where
  "new_ValidationError msg c sc resp = (new_SendlyError msg c sc resp)\<lparr>kind := Validation\<rparr>"

definition new_NotFoundError :: "json \<Rightarrow> nat option \<Rightarrow> jsobject option \<Rightarrow> sendly_error" where
  "new_NotFoundError msg sc resp =
     (new_SendlyError msg (JStr ''not_found'') sc resp)\<lparr>kind := NotFound\<rparr>"

definition new_NetworkError :: "string \<Rightarrow> sendly_error" where
  "new_NetworkError msg =
     (new_SendlyError (JStr msg) (JStr ''internal_error'') None None)\<lparr>kind := Network\<rparr>"

definition new_TimeoutError :: "string \<Rightarrow> sendly_error" where
  "new_TimeoutError msg =
     (new_SendlyError (JStr msg) (JStr ''internal_error'') None None)\<lparr>kind := Timeout\<rparr>"

text \<open>\<open>error instanceof RateLimitError\<close>.\<close>

definition is_RateLimitError :: "sendly_error \<Rightarrow> bool" where
  "is_RateLimitError e = (case kind e of RateLimit _ \<Rightarrow> True | _ \<Rightarrow> False)"

text \<open>
  \<^verbatim>\<open>
  static fromResponse(statusCode, response) {
    const message = response.message || "An unknown error occurred";
    const code = response.error || "internal_error";
    switch (code) {
      case "unauthorized": case "invalid_auth_format": case "invalid_key_format":
      case "invalid_api_key": case "key_revoked": case "key_expired":
      case "insufficient_permissions":
        return new AuthenticationError(message, code, statusCode, response);
      case "rate_limit_exceeded":
        return new RateLimitError(message, response.retryAfter || 60, statusCode, response);
      case "insufficient_credits":
        return new InsufficientCreditsError(message, response.creditsNeeded || 0,
          response.currentBalance || 0, statusCode, response);
      case "invalid_request": case "unsupported_destination":
        return new ValidationError(message, code, statusCode, response);
      case "not_found":
        return new NotFoundError(message, statusCode, response);
      default:
        return new _SendlyError(message, code, statusCode, response);
    }
  }
  \<close>
\<close>

definition fromResponse :: "nat \<Rightarrow> jsobject \<Rightarrow> sendly_error" where
  "fromResponse sc resp =
     (let msg = or_else (get_prop resp ''message'') (JStr ''An unknown error occurred'');
          c = or_else (get_prop resp ''error'') (JStr ''internal_error'')
      in if c \<in> set (map JStr [''unauthorized'', ''invalid_auth_format'', ''invalid_key_format'',
                ''invalid_api_key'', ''key_revoked'', ''key_expired'', ''insufficient_permissions''])
         then new_AuthenticationError msg c (Some sc) (Some resp)
         else if c = JStr ''rate_limit_exceeded''
         then new_RateLimitError msg (or_else (get_prop resp ''retryAfter'') (JNum 60)) (Some sc) (Some resp)
         else if c = JStr ''insufficient_credits''
         then new_InsufficientCreditsError msg (or_else (get_prop resp ''creditsNeeded'') (JNum 0))
                (or_else (get_prop resp ''currentBalance'') (JNum 0)) (Some sc) (Some resp)
         else if c \<in> set (map JStr [''invalid_request'', ''unsupported_destination''])
         then new_ValidationError msg c (Some sc) (Some resp)
         else if c = JStr ''not_found''
         then new_NotFoundError msg (Some sc) (Some resp)
         else new_SendlyError msg c (Some sc) (Some resp))"

section \<open>HTTP client (src/utils/http.ts)\<close>

subsection \<open>Configuration and construction\<close>

text \<open>
  The configuration object handed to the constructors: \<open>apiKey\<close> is required, the other
  fields are optional (\<open>None\<close> is \<open>undefined\<close>). Timeouts and retry counts are integers.
\<close>

record client_options =
  opt_apiKey :: string
  opt_baseUrl :: "string option"
  opt_timeout :: "int option"
  opt_maxRetries :: "int option"

record http_config =
  apiKey :: string
  baseUrl :: string
  timeout :: int
  maxRetries :: int

text \<open>
  The parts of a parsed \<open>URL\<close> object that the client reads. The platform's \<open>new URL(s)\<close>
  is a parameter \<open>newURL\<close> of the functions that call it; it yields \<open>None\<close> where the
  platform throws a \<open>TypeError\<close>.
\<close>

record URL =
  protocol :: string
  hostname :: string

text \<open>
  A JavaScript number: a finite value, one of the two infinities, the negative zero, or
  \<open>NaN\<close>. The finite doubles are among the reals.
\<close>

datatype number = NaN | Infinity | MinusInfinity | MinusZero | Finite real

record RateLimitInfo =
  limit :: number
  remaining :: number
  reset :: number

record HttpClient =
  config :: http_config
  rateLimitInfo :: "RateLimitInfo option"

definition DEFAULT_BASE_URL :: string where
  "DEFAULT_BASE_URL = ''https://sendly.live/api/''"

definition DEFAULT_TIMEOUT :: int where
  "DEFAULT_TIMEOUT = 30000"

definition DEFAULT_MAX_RETRIES :: int where
  "DEFAULT_MAX_RETRIES = 3"

text \<open>\<open>/^sk_(test|live)_v1_[a-zA-Z0-9_-]+$/.test(key)\<close>\<close>

definition token_char :: "char \<Rightarrow> bool" where
  "token_char c =
     (let n = (of_char c :: nat)
      in (97 \<le> n \<and> n \<le> 122) \<or> (65 \<le> n \<and> n \<le> 90) \<or> (48 \<le> n \<and> n \<le> 57)
         \<or> c = CHR ''_'' \<or> c = CHR ''-'')"

definition isValidApiKey :: "string \<Rightarrow> bool" where
  "isValidApiKey key =
     ((take 11 key = ''sk_test_v1_'' \<or> take 11 key = ''sk_live_v1_'')
      \<and> drop 11 key \<noteq> [] \<and> list_all token_char (drop 11 key))"

datatype thrown =
    Sendly sendly_error
  | SyntaxError
  | TypeError
  | InvalidApiKeyFormat
  | InsecureBaseUrl

text \<open>
  \<^verbatim>\<open>
  constructor(config) {
    this.config = {
      apiKey: config.apiKey,
      baseUrl: config.baseUrl || DEFAULT_BASE_URL,
      timeout: config.timeout || DEFAULT_TIMEOUT,
      maxRetries: config.maxRetries ?? DEFAULT_MAX_RETRIES
    };
    if (!this.isValidApiKey(this.config.apiKey)) {
      throw new Error("Invalid API key format. Expected sk_test_v1_xxx or sk_live_v1_xxx");
    }
    const baseUrl = new URL(this.config.baseUrl);
    if (baseUrl.protocol !== "https:" && !baseUrl.hostname.includes("localhost")
        && baseUrl.hostname !== "127.0.0.1") {
      throw new Error("API key must only be transmitted over HTTPS. Use https:// or localhost for development.");
    }
  }
  \<close>
  \<open>InvalidApiKeyFormat\<close> and \<open>InsecureBaseUrl\<close> are the two \<open>Error\<close>s thrown here.
\<close>

definition str_or :: "string option \<Rightarrow> string \<Rightarrow> string" where
  "str_or a b = (case a of None \<Rightarrow> b | Some v \<Rightarrow> if v = [] then b else v)"

definition num_or :: "int option \<Rightarrow> int \<Rightarrow> int" where
  "num_or a b = (case a of None \<Rightarrow> b | Some v \<Rightarrow> if v = 0 then b else v)"

definition nullish_or :: "int option \<Rightarrow> int \<Rightarrow> int" where
  "nullish_or a b = (case a of None \<Rightarrow> b | Some v \<Rightarrow> v)"

definition HttpClient_constructor ::
    "(string \<Rightarrow> URL option) \<Rightarrow> client_options \<Rightarrow> thrown + HttpClient" where
  "HttpClient_constructor newURL cfg =
     (let c = \<lparr>apiKey = opt_apiKey cfg,
               baseUrl = str_or (opt_baseUrl cfg) DEFAULT_BASE_URL,
               timeout = num_or (opt_timeout cfg) DEFAULT_TIMEOUT,
               maxRetries = nullish_or (opt_maxRetries cfg) DEFAULT_MAX_RETRIES\<rparr>
      in if \<not> isValidApiKey (apiKey c) then Inl InvalidApiKeyFormat
         else case newURL (baseUrl c) of
                None \<Rightarrow> Inl TypeError
              | Some u \<Rightarrow>
                  if protocol u \<noteq> ''https:'' \<and> \<not> str_includes (hostname u) ''localhost''
                       \<and> hostname u \<noteq> ''127.0.0.1''
                  then Inl InsecureBaseUrl
                  else Inr \<lparr>config = c, rateLimitInfo = None\<rparr>)"

subsection \<open>Rate-limit tracking\<close>

text \<open>
  \<^verbatim>\<open>
  updateRateLimitInfo(headers) {
    const limit = headers.get("X-RateLimit-Limit");
    const remaining = headers.get("X-RateLimit-Remaining");
    const reset = headers.get("X-RateLimit-Reset");
    if (limit && remaining && reset) {
      this.rateLimitInfo = {
        limit: parseInt(limit, 10),
        remaining: parseInt(remaining, 10),
        reset: parseInt(reset, 10)
      };
    }
  }
  \<close>
  A \<open>Headers\<close> object is its \<open>get\<close> method: \<open>None\<close> is the \<open>null\<close> of an absent header.
  The platform's \<open>parseInt\<close> with the radix 10 is the parameter \<open>parseInt\<close> of the
  functions that call it: it maps a string to the number that the platform reads from it.
\<close>

type_synonym headers = "string \<Rightarrow> string option"

definition updateRateLimitInfo ::
    "(string \<Rightarrow> number) \<Rightarrow> HttpClient \<Rightarrow> headers \<Rightarrow> HttpClient" where
  "updateRateLimitInfo parseInt this hs =
     (case (hs ''X-RateLimit-Limit'', hs ''X-RateLimit-Remaining'', hs ''X-RateLimit-Reset'') of
        (Some l, Some rm, Some rs) \<Rightarrow>
          if l \<noteq> [] \<and> rm \<noteq> [] \<and> rs \<noteq> []
          then this\<lparr>rateLimitInfo :=
                 Some \<lparr>limit = parseInt l, remaining = parseInt rm, reset = parseInt rs\<rparr>\<rparr>
          else this
      | _ \<Rightarrow> this)"

definition getRateLimitInfo :: "HttpClient \<Rightarrow> RateLimitInfo option" where
  "getRateLimitInfo this = rateLimitInfo this"

subsection \<open>Backoff\<close>

text \<open>
  \<^verbatim>\<open>
  calculateBackoff(attempt) {
    const baseDelay = Math.pow(2, attempt) * 1e3;
    const jitter = Math.random() * 500;
    return Math.min(baseDelay + jitter, 3e4);
  }
  \<close>
  JavaScript numbers are modelled as reals. The draw of \<open>Math.random()\<close>, a number in
  \<open>[0, 1)\<close>, is passed in as the second argument.
\<close>

definition calculateBackoff :: "nat \<Rightarrow> real \<Rightarrow> real" where
  "calculateBackoff attempt random =
     (let baseDelay = 2 ^ attempt * 1000;
          jitter = random * 500
      in min (baseDelay + jitter) 30000)"

subsection \<open>One exchange\<close>

text \<open>
  A \<open>Response\<close> of the platform's \<open>fetch\<close>: its status, its headers, what
  \<open>response.json()\<close> resolves to (\<open>None\<close> when it rejects, with a \<open>SyntaxError\<close> for a
  body that is not JSON) and what \<open>response.text()\<close> resolves to (\<open>None\<close> when it
  rejects, with a \<open>TypeError\<close> for a body that cannot be read). \<open>response.ok\<close> is true
  for a status from 200 to 299.
\<close>

record response =
  status :: nat
  headers :: headers
  json_body :: "json option"
  text_body :: "string option"

definition ok :: "response \<Rightarrow> bool" where
  "ok r = (200 \<le> status r \<and> status r \<le> 299)"

text \<open>
  What one call of \<open>fetch\<close> does: it rejects with an error that has a name and a message,
  or it resolves to a response. The timer started by \<open>executeRequest\<close> aborts the call
  when it fires first, and \<open>fetch\<close> then rejects with an error named \<open>AbortError\<close>.
\<close>

datatype fetch_result =
    Rejects string string
  | Resolves response

text \<open>
  \<^verbatim>\<open>
  async executeRequest(url, init) {
    const controller = new AbortController();
    const timeoutId = setTimeout(() => controller.abort(), this.config.timeout);
    try {
      const response = await fetch(url, { ...init, signal: controller.signal });
      return response;
    } catch (error) {
      if (error.name === "AbortError") {
        throw new TimeoutError(`Request timed out after ${this.config.timeout}ms`);
      }
      throw new NetworkError(`Network request failed: ${error.message}`, error);
    } finally {
      clearTimeout(timeoutId);
    }
  }
  \<close>
\<close>

definition show_int :: "int \<Rightarrow> string" where
  "show_int i = (if i < 0 then CHR ''-'' # show_nat (nat (- i)) else show_nat (nat i))"

definition executeRequest :: "HttpClient \<Rightarrow> fetch_result \<Rightarrow> thrown + response" where
  "executeRequest this fr =
     (case fr of
        Resolves r \<Rightarrow> Inr r
      | Rejects name msg \<Rightarrow>
          if name = ''AbortError''
          then Inl (Sendly (new_TimeoutError
                 (''Request timed out after '' @ show_int (timeout (config this)) @ ''ms'')))
          else Inl (Sendly (new_NetworkError (''Network request failed: '' @ msg))))"

text \<open>
  \<^verbatim>\<open>
  async parseResponse(response) {
    const contentType = response.headers.get("content-type");
    let data;
    if (contentType?.includes("application/json")) {
      data = await response.json();
    } else {
      data = await response.text();
    }
    if (!response.ok) {
      const errorResponse = data;
      throw SendlyError.fromResponse(response.status, {
        ...errorResponse,
        error: errorResponse?.error || "internal_error",
        message: errorResponse?.message || `HTTP ${response.status}`
      });
    }
    return data;
  }
  \<close>
\<close>

definition parseResponse :: "response \<Rightarrow> thrown + json" where
  "parseResponse r =
     (let contentType = headers r ''content-type'';
          is_json = (case contentType of None \<Rightarrow> False
                     | Some ct \<Rightarrow> str_includes ct ''application/json'');
          body = (if is_json
                  then (case json_body r of None \<Rightarrow> Inl SyntaxError | Some d \<Rightarrow> Inr d)
                  else (case text_body r of None \<Rightarrow> Inl TypeError | Some s \<Rightarrow> Inr (JStr s)))
      in case body of
           Inl e \<Rightarrow> Inl e
         | Inr data \<Rightarrow>
             if \<not> ok r
             then Inl (Sendly (fromResponse (status r)
                    (set_prop ''message''
                       (or_else (opt_prop data ''message'') (JStr (''HTTP '' @ show_nat (status r))))
                       (set_prop ''error''
                          (or_else (opt_prop data ''error'') (JStr ''internal_error''))
                          (spread data)))))
             else Inr data)"

text \<open>
  \<^verbatim>\<open>
  buildUrl(path, query) {
    const base = this.config.baseUrl.replace(/\/$/, "");
    const cleanPath = path.startsWith("/") ? path.slice(1) : path;
    const fullUrl = `${base}/${cleanPath}`;
    const url = new URL(fullUrl);
    if (query) { ... url.searchParams.append(key, String(value)); ... }
    return url.toString();
  }
  \<close>
  The query parameters and the serialisation are the platform's and change neither the
  client nor whether \<open>buildUrl\<close> returns; the model returns the parsed URL.
\<close>

definition buildUrl :: "(string \<Rightarrow> URL option) \<Rightarrow> HttpClient \<Rightarrow> string \<Rightarrow> thrown + URL" where
  "buildUrl newURL this path =
     (let b = baseUrl (config this);
          base = (if b \<noteq> [] \<and> last b = CHR ''/'' then butlast b else b);
          cleanPath = (if prefix ''/'' path then drop 1 path else path);
          fullUrl = base @ ''/'' @ cleanPath
      in case newURL fullUrl of None \<Rightarrow> Inl TypeError | Some url \<Rightarrow> Inr url)"

subsection \<open>The retry loop\<close>

text \<open>
  What a call of \<open>request\<close> can observe and change: the client, how many times \<open>fetch\<close>
  has been invoked, and the waits passed to \<open>sleep\<close>, in order. The transport is a
  function \<open>fetch\<close> from the number of earlier invocations to the result of the next one
  (the URL, the method, the headers and the body are the same on every attempt), and
  \<open>random\<close> gives the successive draws of \<open>Math.random()\<close>. The request body is JSON data,
  on which \<open>JSON.stringify\<close> does not throw. The platform's \<open>parseInt\<close> is passed on to
  \<open>updateRateLimitInfo\<close>.
\<close>

record world =
  client :: HttpClient
  fetch_calls :: nat
  sleeps :: "real list"

text \<open>
  The body of the \<open>try\<close> block:
  \<^verbatim>\<open>
  const response = await this.executeRequest(url, {...});
  this.updateRateLimitInfo(response.headers);
  const data = await this.parseResponse(response);
  return data;
  \<close>
\<close>

definition try_attempt ::
    "(string \<Rightarrow> number) \<Rightarrow> (nat \<Rightarrow> fetch_result) \<Rightarrow> world \<Rightarrow> (thrown + json) \<times> world" where
  "try_attempt parseInt fetch w =
     (let w1 = w\<lparr>fetch_calls := Suc (fetch_calls w)\<rparr>
      in case executeRequest (client w) (fetch (fetch_calls w)) of
           Inl e \<Rightarrow> (Inl e, w1)
         | Inr resp \<Rightarrow>
             (parseResponse resp,
              w1\<lparr>client := updateRateLimitInfo parseInt (client w1) (headers resp)\<rparr>))"

text \<open>
  The errors that the \<open>catch\<close> block throws again at once:
  \<^verbatim>\<open>
  if (error instanceof SendlyError) {
    if (error.statusCode === 401 || error.statusCode === 403) { throw error; }
    if (error.statusCode === 400 || error.statusCode === 404) { throw error; }
    if (error.statusCode === 402) { throw error; }
    if (error instanceof RateLimitError) { throw error; }
  }
  \<close>
\<close>

fun rethrown :: "thrown \<Rightarrow> bool" where
  "rethrown (Sendly e) =
     (statusCode e = Some 401 \<or> statusCode e = Some 403
      \<or> statusCode e = Some 400 \<or> statusCode e = Some 404
      \<or> statusCode e = Some 402
      \<or> is_RateLimitError e)"
| "rethrown _ = False"

text \<open>
  \<^verbatim>\<open>
  async request(options) {
    const url = this.buildUrl(options.path, options.query);
    const headers = this.buildHeaders(options.headers);
    let lastError;
    for (let attempt = 0; attempt <= this.config.maxRetries; attempt++) {
      try {
        ... return data;
      } catch (error) {
        lastError = error;
        if (error instanceof SendlyError) { ... throw error; ... }
        if (attempt < this.config.maxRetries) {
          const backoffTime = this.calculateBackoff(attempt);
          await this.sleep(backoffTime);
          continue;
        }
      }
    }
    throw lastError || new NetworkError("Request failed after retries");
  }
  \<close>
  \<open>request_loop\<close> is the \<open>for\<close> loop from the test of its condition at \<open>attempt\<close>, followed
  by the final \<open>throw\<close>.
\<close>

function request_loop ::
    "(string \<Rightarrow> number) \<Rightarrow> (nat \<Rightarrow> fetch_result) \<Rightarrow> (nat \<Rightarrow> real) \<Rightarrow> nat
       \<Rightarrow> thrown option \<Rightarrow> world
       \<Rightarrow> (thrown + json) \<times> world" where
  "request_loop parseInt fetch random attempt lastError w =
     (if int attempt \<le> maxRetries (config (client w)) then
        (case try_attempt parseInt fetch w of
           (Inr data, w') \<Rightarrow> (Inr data, w')
         | (Inl error, w') \<Rightarrow>
             if rethrown error then (Inl error, w')
             else if int attempt < maxRetries (config (client w'))
             then request_loop parseInt fetch random (Suc attempt) (Some error)
                    (w'\<lparr>sleeps := sleeps w' @
                          [calculateBackoff attempt (random (length (sleeps w')))]\<rparr>)
             else request_loop parseInt fetch random (Suc attempt) (Some error) w')
      else (Inl (case lastError of
                   Some e \<Rightarrow> e
                 | None \<Rightarrow> Sendly (new_NetworkError ''Request failed after retries'')), w))"
  by pat_completeness auto
termination
  by (relation "measure (\<lambda>(parseInt, fetch, random, attempt, lastError, w).
                   nat (maxRetries (config (client w)) + 1 - int attempt))")
     (auto simp: try_attempt_def updateRateLimitInfo_def Let_def
           split: sum.splits option.splits if_splits prod.splits)

declare request_loop.simps [simp del]

record request_options =
  path :: string

definition request ::
    "(string \<Rightarrow> URL option) \<Rightarrow> (string \<Rightarrow> number) \<Rightarrow> (nat \<Rightarrow> fetch_result) \<Rightarrow> (nat \<Rightarrow> real) \<Rightarrow> HttpClient
       \<Rightarrow> request_options \<Rightarrow> (thrown + json) \<times> world" where
  "request newURL parseInt fetch random this options =
     (let w = \<lparr>client = this, fetch_calls = 0, sleeps = []\<rparr>
      in case buildUrl newURL this (path options) of
           Inl e \<Rightarrow> (Inl e, w)
         | Inr url \<Rightarrow> request_loop parseInt fetch random 0 None w)"

section \<open>Client facade (src/client.ts)\<close>

definition DEFAULT_BASE_URL2 :: string where
  "DEFAULT_BASE_URL2 = ''https://sendly.live/api''"

definition DEFAULT_TIMEOUT2 :: int where
  "DEFAULT_TIMEOUT2 = 30000"

definition DEFAULT_MAX_RETRIES2 :: int where
  "DEFAULT_MAX_RETRIES2 = 3"

text \<open>The constructor's argument: an API key, or a configuration object.\<close>

datatype config_or_api_key =
    ApiKey string
  | ConfigObject client_options

record Sendly =
  sendly_config :: http_config
  http :: HttpClient

text \<open>
  \<^verbatim>\<open>
  constructor(configOrApiKey) {
    if (typeof configOrApiKey === "string") {
      this.config = { apiKey: configOrApiKey, baseUrl: DEFAULT_BASE_URL2,
                      timeout: DEFAULT_TIMEOUT2, maxRetries: DEFAULT_MAX_RETRIES2 };
    } else {
      this.config = {
        apiKey: configOrApiKey.apiKey,
        baseUrl: configOrApiKey.baseUrl || DEFAULT_BASE_URL2,
        timeout: configOrApiKey.timeout || DEFAULT_TIMEOUT2,
        maxRetries: configOrApiKey.maxRetries ?? DEFAULT_MAX_RETRIES2
      };
    }
    this.http = new HttpClient({ apiKey: this.config.apiKey, baseUrl: this.config.baseUrl,
                                 timeout: this.config.timeout, maxRetries: this.config.maxRetries });
    this.messages = new MessagesResource(this.http);
  }
  \<close>
  \<open>MessagesResource\<close> only keeps the reference to \<open>this.http\<close>.
\<close>

definition Sendly_constructor ::
    "(string \<Rightarrow> URL option) \<Rightarrow> config_or_api_key \<Rightarrow> thrown + Sendly" where
  "Sendly_constructor newURL configOrApiKey =
     (let cfg = (case configOrApiKey of
                   ApiKey k \<Rightarrow>
                     \<lparr>apiKey = k, baseUrl = DEFAULT_BASE_URL2,
                      timeout = DEFAULT_TIMEOUT2, maxRetries = DEFAULT_MAX_RETRIES2\<rparr>
                 | ConfigObject c \<Rightarrow>
                     \<lparr>apiKey = opt_apiKey c,
                      baseUrl = str_or (opt_baseUrl c) DEFAULT_BASE_URL2,
                      timeout = num_or (opt_timeout c) DEFAULT_TIMEOUT2,
                      maxRetries = nullish_or (opt_maxRetries c) DEFAULT_MAX_RETRIES2\<rparr>)
      in case HttpClient_constructor newURL
                \<lparr>opt_apiKey = apiKey cfg, opt_baseUrl = Some (baseUrl cfg),
                 opt_timeout = Some (timeout cfg), opt_maxRetries = Some (maxRetries cfg)\<rparr> of
           Inl e \<Rightarrow> Inl e
         | Inr h \<Rightarrow> Inr \<lparr>sendly_config = cfg, http = h\<rparr>)"

section \<open>HMAC-SHA256 (the platform's \<open>crypto.createHmac("sha256", key)\<close>)\<close>

text \<open>
  SHA-256 (FIPS 180-4) on byte sequences, and HMAC (RFC 2104) with it: the functions
  that \<open>crypto.createHmac("sha256", secret).update(payload).digest("hex")\<close> computes.
\<close>

type_synonym byte = "8 word"
type_synonym w32 = "32 word"

definition Ch :: "w32 \<Rightarrow> w32 \<Rightarrow> w32 \<Rightarrow> w32" where
  "Ch x y z = (x AND y) XOR (NOT x AND z)"

definition Maj :: "w32 \<Rightarrow> w32 \<Rightarrow> w32 \<Rightarrow> w32" where
  "Maj x y z = (x AND y) XOR (x AND z) XOR (y AND z)"

definition Sigma0 :: "w32 \<Rightarrow> w32" where
  "Sigma0 x = word_rotr 2 x XOR word_rotr 13 x XOR word_rotr 22 x"

definition Sigma1 :: "w32 \<Rightarrow> w32" where
  "Sigma1 x = word_rotr 6 x XOR word_rotr 11 x XOR word_rotr 25 x"

definition sigma0 :: "w32 \<Rightarrow> w32" where
  "sigma0 x = word_rotr 7 x XOR word_rotr 18 x XOR drop_bit 3 x"

definition sigma1 :: "w32 \<Rightarrow> w32" where
  "sigma1 x = word_rotr 17 x XOR word_rotr 19 x XOR drop_bit 10 x"

text \<open>
  The constants are written as the standard prints them, as strings of hexadecimal digits:
  the 64 round constants (section 4.2.2) and the initial hash value (section 5.3.3).
\<close>

definition hex_value :: "char \<Rightarrow> nat" where
  "hex_value c = length (takeWhile (\<lambda>d. d \<noteq> c) ''0123456789abcdef'')"

definition word_of_hex :: "string \<Rightarrow> w32" where
  "word_of_hex s = foldl (\<lambda>a c. a * 16 + of_nat (hex_value c)) 0 s"

definition sha256_K :: "w32 list" where
  "sha256_K = map word_of_hex
    [''428a2f98'', ''71374491'', ''b5c0fbcf'', ''e9b5dba5'', ''3956c25b'', ''59f111f1'', ''923f82a4'', ''ab1c5ed5'',
     ''d807aa98'', ''12835b01'', ''243185be'', ''550c7dc3'', ''72be5d74'', ''80deb1fe'', ''9bdc06a7'', ''c19bf174'',
     ''e49b69c1'', ''efbe4786'', ''0fc19dc6'', ''240ca1cc'', ''2de92c6f'', ''4a7484aa'', ''5cb0a9dc'', ''76f988da'',
     ''983e5152'', ''a831c66d'', ''b00327c8'', ''bf597fc7'', ''c6e00bf3'', ''d5a79147'', ''06ca6351'', ''14292967'',
     ''27b70a85'', ''2e1b2138'', ''4d2c6dfc'', ''53380d13'', ''650a7354'', ''766a0abb'', ''81c2c92e'', ''92722c85'',
     ''a2bfe8a1'', ''a81a664b'', ''c24b8b70'', ''c76c51a3'', ''d192e819'', ''d6990624'', ''f40e3585'', ''106aa070'',
     ''19a4c116'', ''1e376c08'', ''2748774c'', ''34b0bcb5'', ''391c0cb3'', ''4ed8aa4a'', ''5b9cca4f'', ''682e6ff3'',
     ''748f82ee'', ''78a5636f'', ''84c87814'', ''8cc70208'', ''90befffa'', ''a4506ceb'', ''bef9a3f7'', ''c67178f2'']"

definition sha256_H0 :: "w32 list" where
  "sha256_H0 = map word_of_hex
    [''6a09e667'', ''bb67ae85'', ''3c6ef372'', ''a54ff53a'', ''510e527f'', ''9b05688c'', ''1f83d9ab'', ''5be0cd19'']"

fun be_words :: "byte list \<Rightarrow> w32 list" where
  "be_words (a # b # c # d # rest) =
     (push_bit 24 (ucast a) OR push_bit 16 (ucast b) OR push_bit 8 (ucast c) OR ucast d) # be_words rest"
| "be_words _ = []"

definition be_bytes :: "w32 \<Rightarrow> byte list" where
  "be_bytes w = [ucast (drop_bit 24 w), ucast (drop_bit 16 w), ucast (drop_bit 8 w), ucast w]"

definition sha256_pad :: "byte list \<Rightarrow> byte list" where
  "sha256_pad m =
     (let n = length m;
          z = (55 + 64 - n mod 64) mod 64;
          bits = (word_of_nat (8 * n) :: 64 word)
      in m @ [0x80] @ replicate z 0 @
         map (\<lambda>i. ucast (drop_bit (8 * (7 - i)) bits)) [0..<8])"

fun schedule :: "nat \<Rightarrow> w32 list \<Rightarrow> w32 list" where
  "schedule 0 ws = ws"
| "schedule (Suc k) ws =
     (let t = length ws
      in schedule k (ws @ [sigma1 (ws ! (t - 2)) + ws ! (t - 7) + sigma0 (ws ! (t - 15)) + ws ! (t - 16)]))"

fun sha256_round :: "w32 \<times> w32 \<Rightarrow> w32 list \<Rightarrow> w32 list" where
  "sha256_round (k, w) [a, b, c, d, e, f, g, h] =
     (let t1 = h + Sigma1 e + Ch e f g + k + w;
          t2 = Sigma0 a + Maj a b c
      in [t1 + t2, a, b, c, d + t1, e, f, g])"
| "sha256_round _ s = s"

definition sha256_compress :: "w32 list \<Rightarrow> byte list \<Rightarrow> w32 list" where
  "sha256_compress hs block =
     map2 (+) hs (fold sha256_round (zip sha256_K (schedule 48 (be_words block))) hs)"

fun sha256_blocks :: "nat \<Rightarrow> w32 list \<Rightarrow> byte list \<Rightarrow> w32 list" where
  "sha256_blocks 0 hs bs = hs"
| "sha256_blocks (Suc k) hs bs = sha256_blocks k (sha256_compress hs (take 64 bs)) (drop 64 bs)"

definition sha256 :: "byte list \<Rightarrow> byte list" where
  "sha256 m = (let p = sha256_pad m in concat (map be_bytes (sha256_blocks (length p div 64) sha256_H0 p)))"

definition hmac_sha256 :: "byte list \<Rightarrow> byte list \<Rightarrow> byte list" where
  "hmac_sha256 key msg =
     (let k0 = (if length key > 64 then sha256 key else key);
          k = k0 @ replicate (64 - length k0) 0
      in sha256 (map (\<lambda>b. b XOR 0x5c) k @ sha256 (map (\<lambda>b. b XOR 0x36) k @ msg)))"

definition hex_digit :: "nat \<Rightarrow> char" where
  "hex_digit n = ''0123456789abcdef'' ! n"

definition hex :: "byte list \<Rightarrow> string" where
  "hex bs = concat (map (\<lambda>b. [hex_digit (unat b div 16), hex_digit (unat b mod 16)]) bs)"

text \<open>\<open>Buffer.from(s)\<close>: the bytes of a string.\<close>

definition Buffer_from :: "string \<Rightarrow> byte list" where
  "Buffer_from s = map of_char s"

section \<open>Webhook verifier (src/utils/webhooks.ts)\<close>

text \<open>
  \<^verbatim>\<open>
  function generateWebhookSignature(payload, secret) {
    const hmac = crypto.createHmac("sha256", secret);
    hmac.update(payload);
    return "sha256=" + hmac.digest("hex");
  }
  \<close>
\<close>

definition generateWebhookSignature :: "string \<Rightarrow> string \<Rightarrow> string" where
  "generateWebhookSignature payload secret =
     ''sha256='' @ hex (hmac_sha256 (Buffer_from secret) (Buffer_from payload))"

text \<open>
  \<open>crypto.timingSafeEqual(a, b)\<close> throws a \<open>RangeError\<close> when the two buffers differ in
  length, and compares them otherwise.
\<close>

datatype node_error = RangeError

definition timingSafeEqual :: "byte list \<Rightarrow> byte list \<Rightarrow> node_error + bool" where
  "timingSafeEqual a b = (if length a \<noteq> length b then Inl RangeError else Inr (a = b))"

text \<open>
  \<^verbatim>\<open>
  function verifyWebhookSignature(payload, signature, secret) {
    if (!payload || !signature || !secret) { return false; }
    const expectedSignature = generateWebhookSignature(payload, secret);
    try {
      return crypto.timingSafeEqual(Buffer.from(signature), Buffer.from(expectedSignature));
    } catch { return false; }
  }
  \<close>
  An argument that is absent (\<open>undefined\<close> or \<open>null\<close>) is \<open>None\<close>.
\<close>

definition verifyWebhookSignature :: "string option \<Rightarrow> string option \<Rightarrow> string option \<Rightarrow> bool" where
  "verifyWebhookSignature payload signature secret =
     (case (payload, signature, secret) of
        (Some p, Some sg, Some sk) \<Rightarrow>
          if p = [] \<or> sg = [] \<or> sk = [] then False
          else (let expectedSignature = generateWebhookSignature p sk
                in case timingSafeEqual (Buffer_from sg) (Buffer_from expectedSignature) of
                     Inl _ \<Rightarrow> False
                   | Inr b \<Rightarrow> b)
      | _ \<Rightarrow> False)"

text \<open>
  \<^verbatim>\<open>
  function parseWebhookEvent(payload, signature, secret) {
    if (!verifyWebhookSignature(payload, signature, secret)) {
      throw new WebhookSignatureError();
    }
    let event;
    try { event = JSON.parse(payload); }
    catch { throw new Error("Failed to parse webhook payload"); }
    if (!event.id || !event.type || !event.createdAt) {
      throw new Error("Invalid webhook event structure");
    }
    return event;
  }
  \<close>
  The platform's \<open>JSON.parse\<close> is the parameter \<open>JSON_parse\<close>, \<open>None\<close> where it throws.
  Reading a property of \<open>null\<close> throws a \<open>TypeError\<close>, outside the \<open>try\<close> block.
\<close>

datatype webhook_error =
    WebhookSignatureError
  | FailedToParsePayload
  | InvalidEventStructure
  | NullEventTypeError

definition parseWebhookEvent ::
    "(string \<Rightarrow> json option) \<Rightarrow> string option \<Rightarrow> string option \<Rightarrow> string option
       \<Rightarrow> webhook_error + json" where
  "parseWebhookEvent JSON_parse payload signature secret =
     (if \<not> verifyWebhookSignature payload signature secret then Inl WebhookSignatureError
      else case (case payload of None \<Rightarrow> None | Some p \<Rightarrow> JSON_parse p) of
             None \<Rightarrow> Inl FailedToParsePayload
           | Some event \<Rightarrow>
               if event = JNull then Inl NullEventTypeError
               else if \<not> truthy (opt_prop event ''id'') \<or> \<not> truthy (opt_prop event ''type'')
                       \<or> \<not> truthy (opt_prop event ''createdAt'')
               then Inl InvalidEventStructure
               else Inr event)"

section \<open>Vocabulary of the properties\<close>

text \<open>
  What the \<open>try\<close> block of one attempt yields for a given result of \<open>fetch\<close>: the data,
  or the error thrown by \<open>executeRequest\<close> or \<open>parseResponse\<close>.
\<close>

definition attempt_outcome :: "HttpClient \<Rightarrow> fetch_result \<Rightarrow> thrown + json" where
  "attempt_outcome this fr =
     (case executeRequest this fr of Inl e \<Rightarrow> Inl e | Inr r \<Rightarrow> parseResponse r)"

text \<open>
  The retryable outcomes as the specification lists them: a network failure or a timeout
  (errors without a status), a classified error with a 5xx status that is not a
  \<open>RateLimitError\<close>, and any failure that is not a \<open>SendlyError\<close>.
\<close>

definition spec_retryable :: "thrown \<Rightarrow> bool" where
  "spec_retryable t =
     (case t of
        Sendly e \<Rightarrow>
          (case statusCode e of
             None \<Rightarrow> kind e = Network \<or> kind e = Timeout
           | Some s \<Rightarrow> 500 \<le> s \<and> s \<le> 599 \<and> \<not> is_RateLimitError e)
      | _ \<Rightarrow> True)"

text \<open>
  The headers of the responses that the calls number \<open>a\<close> to \<open>b - 1\<close> of \<open>fetch\<close>
  resolved to, in order.
\<close>

definition headers_seen :: "(nat \<Rightarrow> fetch_result) \<Rightarrow> nat \<Rightarrow> nat \<Rightarrow> headers list" where
  "headers_seen fetch a b =
     concat (map (\<lambda>i. case fetch i of Resolves r \<Rightarrow> [headers r] | Rejects n m \<Rightarrow> []) [a..<b])"

section \<open>Concrete scenarios\<close>

text \<open>
  The platform's \<open>new URL\<close> on the URLs of the scenarios below: the protocol and the host
  name it parses them to. The table stands for the platform's function on these URLs
  only; the scenarios use no other.
\<close>

definition URL_table :: "string \<Rightarrow> URL option" where
  "URL_table s =
     (if s \<in> set [''https://sendly.live/api/'', ''https://sendly.live/api'',
                   ''https://sendly.live/api/v1/messages'']
      then Some \<lparr>protocol = ''https:'', hostname = ''sendly.live''\<rparr>
      else if s = ''http://localhost.evil.example''
      then Some \<lparr>protocol = ''http:'', hostname = ''localhost.evil.example''\<rparr>
      else None)"

definition sample_client :: HttpClient where
  "sample_client =
     \<lparr>config = \<lparr>apiKey = ''sk_test_v1_abc123'', baseUrl = ''https://sendly.live/api/'',
                 timeout = 30000, maxRetries = 3\<rparr>,
      rateLimitInfo = None\<rparr>"

definition json_headers :: headers where
  "json_headers name = (if name = ''content-type'' then Some ''application/json'' else None)"

definition rate_headers :: headers where
  "rate_headers name =
     (if name = ''content-type'' then Some ''application/json''
      else if name = ''X-RateLimit-Limit'' then Some ''100''
      else if name = ''X-RateLimit-Remaining'' then Some ''42''
      else if name = ''X-RateLimit-Reset'' then Some ''60''
      else None)"

text \<open>
  Headers where \<open>X-RateLimit-Limit\<close> is present with an empty value.
\<close>

definition empty_limit_headers :: headers where
  "empty_limit_headers name =
     (if name = ''content-type'' then Some ''application/json''
      else if name = ''X-RateLimit-Limit'' then Some []
      else if name = ''X-RateLimit-Remaining'' then Some ''42''
      else if name = ''X-RateLimit-Reset'' then Some ''60''
      else None)"

text \<open>
  The platform's \<open>parseInt(s, 10)\<close> on the header values of the scenarios: the numbers
  it reads from \<open>100\<close>, \<open>42\<close> and \<open>60\<close>, and \<open>NaN\<close> for the empty string. The table
  stands for the platform's function on these values only; the scenarios use no other.
\<close>

definition parseInt_table :: "string \<Rightarrow> number" where
  "parseInt_table s =
     (if s = ''100'' then Finite 100
      else if s = ''42'' then Finite 42
      else if s = ''60'' then Finite 60
      else NaN)"

definition response_401 :: response where
  \<open>response_401 =
     \<lparr>status = 401, headers = json_headers,
      json_body = Some (JObj [(''error'', JStr ''unauthorized''),
                              (''message'', JStr ''Invalid API key'')]),
      text_body = Some ''{"error":"unauthorized","message":"Invalid API key"}''\<rparr>\<close>

definition response_500 :: response where
  \<open>response_500 =
     \<lparr>status = 500, headers = json_headers,
      json_body = Some (JObj [(''error'', JStr ''internal_error''),
                              (''message'', JStr ''Server error'')]),
      text_body = Some ''{"error":"internal_error","message":"Server error"}''\<rparr>\<close>

definition response_200 :: response where
  \<open>response_200 =
     \<lparr>status = 200, headers = rate_headers,
      json_body = Some (JObj [(''id'', JStr ''msg_1'')]),
      text_body = Some ''{"id":"msg_1"}''\<rparr>\<close>

definition response_429 :: response where
  \<open>response_429 =
     \<lparr>status = 429, headers = json_headers,
      json_body = Some (JObj [(''error'', JStr ''rate_limit_exceeded''), (''retryAfter'', JNum 45)]),
      text_body = Some ''{"error":"rate_limit_exceeded","retryAfter":45}''\<rparr>\<close>

definition fetch_500_500_200 :: "nat \<Rightarrow> fetch_result" where
  "fetch_500_500_200 i = (if i < 2 then Resolves response_500 else Resolves response_200)"

definition event_payload :: string where
  \<open>event_payload = ''{"id":"evt_1","type":"message.delivered","createdAt":"2025-01-01T00:00:00Z"}''\<close>

definition partial_payload :: string where
  \<open>partial_payload = ''{"type":"message.delivered"}''\<close>

text \<open>
  The platform's \<open>JSON.parse\<close> on the payloads of the scenarios: the two payloads
  above, the text \<open>null\<close>, and the text \<open>not json\<close>, on which it throws.
\<close>

definition JSON_parse_table :: "string \<Rightarrow> json option" where
  "JSON_parse_table s =
     (if s = event_payload
      then Some (JObj [(''id'', JStr ''evt_1''), (''type'', JStr ''message.delivered''),
                       (''createdAt'', JStr ''2025-01-01T00:00:00Z'')])
      else if s = partial_payload
      then Some (JObj [(''type'', JStr ''message.delivered'')])
      else if s = ''null'' then Some JNull
      else None)"

section \<open>Properties\<close>

subsection \<open>Values, errors and numbers\<close>

lemmas new_error_defs = new_SendlyError_def new_AuthenticationError_def new_RateLimitError_def
  new_InsufficientCreditsError_def new_ValidationError_def new_NotFoundError_def
  new_NetworkError_def new_TimeoutError_def

lemma map_of_set_prop: "map_of (set_prop k v ps) = (map_of ps)(k \<mapsto> v)"
  by (induction ps) (auto simp: fun_eq_iff)

lemma get_prop_set_prop:
  "get_prop (set_prop k v ps) k' = (if k' = k then Some v else get_prop ps k')"
  by (simp add: get_prop_def map_of_set_prop)

lemma or_else_Some_truthy: "truthy (Some v) \<Longrightarrow> or_else (Some v) d = v"
  by (simp add: or_else_def)

lemma or_else_falsy: "\<not> truthy a \<Longrightarrow> or_else a d = d"
  by (cases a) (simp_all add: or_else_def)

lemma fromResponse_statusCode: "statusCode (fromResponse sc resp) = Some sc"
  by (simp add: fromResponse_def new_error_defs Let_def)

lemma fromResponse_rate_limit:
  assumes "get_prop body ''error'' = Some (JStr ''rate_limit_exceeded'')"
  shows "fromResponse sc body =
           new_RateLimitError (or_else (get_prop body ''message'') (JStr ''An unknown error occurred''))
             (or_else (get_prop body ''retryAfter'') (JNum 60)) (Some sc) (Some body)"
  using assms by (simp add: fromResponse_def Let_def or_else_def)

subsection \<open>One exchange\<close>

lemma updateRateLimitInfo_config [simp]: "config (updateRateLimitInfo parseInt c h) = config c"
  by (simp add: updateRateLimitInfo_def split: option.splits)

lemma updateRateLimitInfo_present:
  assumes "hs ''X-RateLimit-Limit'' = Some l" and "hs ''X-RateLimit-Remaining'' = Some rm"
    and "hs ''X-RateLimit-Reset'' = Some rs" and "l \<noteq> []" and "rm \<noteq> []" and "rs \<noteq> []"
  shows "updateRateLimitInfo parseInt this hs =
           this\<lparr>rateLimitInfo :=
                  Some \<lparr>limit = parseInt l, remaining = parseInt rm, reset = parseInt rs\<rparr>\<rparr>"
  using assms by (simp add: updateRateLimitInfo_def)

lemma updateRateLimitInfo_absent:
  assumes "hs ''X-RateLimit-Limit'' = None \<or> hs ''X-RateLimit-Limit'' = Some []
           \<or> hs ''X-RateLimit-Remaining'' = None \<or> hs ''X-RateLimit-Remaining'' = Some []
           \<or> hs ''X-RateLimit-Reset'' = None \<or> hs ''X-RateLimit-Reset'' = Some []"
  shows "updateRateLimitInfo parseInt this hs = this"
  using assms by (auto simp: updateRateLimitInfo_def split: option.splits)

lemma parseResponse_Sendly:
  assumes "parseResponse r = Inl (Sendly e)"
  shows "statusCode e = Some (status r)" and "\<not> ok r"
  using assms
  by (auto simp: parseResponse_def Let_def fromResponse_statusCode
      split: option.splits if_splits sum.splits)

lemma parseResponse_not_ok:
  assumes "\<not> ok r"
  shows "parseResponse r = Inl SyntaxError \<or> parseResponse r = Inl TypeError
         \<or> (\<exists>e. parseResponse r = Inl (Sendly e))"
  using assms by (auto simp: parseResponse_def Let_def split: option.splits)

lemma parseResponse_rate_limit:
  assumes nok: "\<not> ok r"
    and ct: "headers r ''content-type'' = Some ct" "str_includes ct ''application/json''"
    and body: "json_body r = Some (JObj body)"
    and err: "get_prop body ''error'' = Some (JStr ''rate_limit_exceeded'')"
  shows "\<exists>e. parseResponse r = Inl (Sendly e)
            \<and> kind e = RateLimit (or_else (get_prop body ''retryAfter'') (JNum 60))
            \<and> statusCode e = Some (status r)"
proof -
  define resp where "resp = set_prop ''message''
       (or_else (opt_prop (JObj body) ''message'') (JStr (''HTTP '' @ show_nat (status r))))
       (set_prop ''error'' (or_else (opt_prop (JObj body) ''error'') (JStr ''internal_error''))
          (spread (JObj body)))"
  have pr: "parseResponse r = Inl (Sendly (fromResponse (status r) resp))"
    using nok ct body by (simp add: parseResponse_def Let_def resp_def)
  have e: "get_prop resp ''error'' = Some (JStr ''rate_limit_exceeded'')"
    using err by (simp add: resp_def get_prop_set_prop or_else_def)
  have ra: "get_prop resp ''retryAfter'' = get_prop body ''retryAfter''"
    by (simp add: resp_def get_prop_set_prop)
  show ?thesis
    unfolding pr fromResponse_rate_limit [OF e] ra
    by (simp add: new_error_defs)
qed

lemma executeRequest_not_rethrown:
  "executeRequest c fr = Inl e \<Longrightarrow> \<not> rethrown e"
  by (auto simp: executeRequest_def new_error_defs is_RateLimitError_def
      split: fetch_result.splits if_splits)

lemma executeRequest_config_cong:
  "config c = config c' \<Longrightarrow> executeRequest c fr = executeRequest c' fr"
  by (cases fr) (simp_all add: executeRequest_def)

lemma attempt_outcome_config_cong:
  "config c = config c' \<Longrightarrow> attempt_outcome c fr = attempt_outcome c' fr"
  by (simp add: attempt_outcome_def executeRequest_config_cong [of c c'])

lemma spec_retryable_not_rethrown: "spec_retryable t \<Longrightarrow> \<not> rethrown t"
  by (cases t) (auto simp: spec_retryable_def is_RateLimitError_def split: option.splits)

lemma parseResponse_5xx:
  assumes "500 \<le> status r" and "status r \<le> 599"
    and "\<forall>e. parseResponse r = Inl (Sendly e) \<longrightarrow> \<not> is_RateLimitError e"
  shows "\<exists>t. parseResponse r = Inl t \<and> spec_retryable t"
proof -
  have nok: "\<not> ok r" using assms(1) by (simp add: ok_def)
  from parseResponse_not_ok [OF nok] consider
      "parseResponse r = Inl SyntaxError" | "parseResponse r = Inl TypeError"
    | "\<exists>e. parseResponse r = Inl (Sendly e)"
    by blast
  then show ?thesis
  proof cases
    case 1
    then show ?thesis by (simp add: spec_retryable_def)
  next
    case 2
    then show ?thesis by (simp add: spec_retryable_def)
  next
    case 3
    then obtain e where e: "parseResponse r = Inl (Sendly e)" by blast
    have "statusCode e = Some (status r)" using parseResponse_Sendly(1) [OF e] .
    moreover have "\<not> is_RateLimitError e" using assms(3) e by blast
    ultimately have "spec_retryable (Sendly e)"
      using assms(1,2) by (simp add: spec_retryable_def)
    with e show ?thesis by blast
  qed
qed

lemma try_attempt_snd:
  "fetch_calls (snd (try_attempt parseInt f w)) = Suc (fetch_calls w)"
  "sleeps (snd (try_attempt parseInt f w)) = sleeps w"
  "config (client (snd (try_attempt parseInt f w))) = config (client w)"
  by (simp_all add: try_attempt_def Let_def split: sum.splits)

lemma try_attempt_resolves:
  "fetch (fetch_calls w) = Resolves r \<Longrightarrow>
   try_attempt parseInt fetch w =
     (parseResponse r,
      w\<lparr>fetch_calls := Suc (fetch_calls w), client := updateRateLimitInfo parseInt (client w) (headers r)\<rparr>)"
  by (simp add: try_attempt_def executeRequest_def Let_def)

lemma fst_try_attempt:
  "fst (try_attempt parseInt fetch w) = attempt_outcome (client w) (fetch (fetch_calls w))"
  by (simp add: try_attempt_def attempt_outcome_def Let_def split: sum.splits)

lemma try_attempt_client:
  "client (snd (try_attempt parseInt fetch w)) =
     foldl (updateRateLimitInfo parseInt) (client w) (headers_seen fetch (fetch_calls w) (Suc (fetch_calls w)))"
  by (cases "fetch (fetch_calls w)")
     (simp_all add: try_attempt_def executeRequest_def headers_seen_def Let_def)

lemma headers_seen_append:
  "a \<le> b \<Longrightarrow> b \<le> c \<Longrightarrow> headers_seen fetch a c = headers_seen fetch a b @ headers_seen fetch b c"
proof -
  assume "a \<le> b" "b \<le> c"
  then have "[a..<c] = [a..<b] @ [b..<c]"
    by (metis le_Suc_ex upt_add_eq_append)
  then show ?thesis by (simp add: headers_seen_def)
qed

subsection \<open>The loop, step by step and as a whole\<close>

lemma loop_done:
  assumes "int attempt \<le> maxRetries (config (client w))"
    and "try_attempt parseInt fetch w = (res, w')"
    and "(\<exists>d. res = Inr d) \<or> (\<exists>e. res = Inl e \<and> rethrown e)"
  shows "request_loop parseInt fetch random attempt lastError w = (res, w')"
  using assms by (subst request_loop.simps) auto

lemma loop_retry:
  assumes "int attempt < maxRetries (config (client w))"
    and "try_attempt parseInt fetch w = (Inl e, w')"
    and "\<not> rethrown e"
  shows "request_loop parseInt fetch random attempt lastError w =
         request_loop parseInt fetch random (Suc attempt) (Some e)
           (w'\<lparr>sleeps := sleeps w' @ [calculateBackoff attempt (random (length (sleeps w')))]\<rparr>)"
proof -
  have "config (client w') = config (client w)"
    using try_attempt_snd(3) [of parseInt fetch w] assms(2) by simp
  with assms show ?thesis by (subst request_loop.simps) auto
qed

lemma loop_exit:
  assumes "\<not> int attempt \<le> maxRetries (config (client w))"
  shows "request_loop parseInt fetch random attempt lastError w =
         (Inl (case lastError of Some e \<Rightarrow> e
               | None \<Rightarrow> Sendly (new_NetworkError ''Request failed after retries'')), w)"
  using assms by (subst request_loop.simps) simp

lemma loop_last:
  assumes "int attempt = maxRetries (config (client w))"
    and "try_attempt parseInt fetch w = (Inl e, w')"
  shows "request_loop parseInt fetch random attempt lastError w = (Inl e, w')"
proof -
  have c: "config (client w') = config (client w)"
    using try_attempt_snd(3) [of parseInt fetch w] assms(2) by simp
  have "request_loop parseInt fetch random (Suc attempt) (Some e) w' = (Inl e, w')"
    using assms(1) c by (subst loop_exit) simp_all
  with assms c show ?thesis by (subst request_loop.simps) auto
qed

lemma loop_bounds:
  "fetch_calls (snd (request_loop parseInt fetch random attempt lastError w))
     \<le> fetch_calls w + nat (maxRetries (config (client w)) + 1 - int attempt)
   \<and> length (sleeps (snd (request_loop parseInt fetch random attempt lastError w)))
     \<le> length (sleeps w) + nat (maxRetries (config (client w)) - int attempt)
   \<and> config (client (snd (request_loop parseInt fetch random attempt lastError w))) = config (client w)"
proof (induction parseInt fetch random attempt lastError w rule: request_loop.induct)
  case (1 parseInt fetch random attempt lastError w)
  show ?case
  proof (cases "int attempt \<le> maxRetries (config (client w))")
    case False
    then show ?thesis by (simp add: loop_exit)
  next
    case le: True
    obtain res w' where ta: "try_attempt parseInt fetch w = (res, w')"
      by (cases "try_attempt parseInt fetch w")
    have w': "fetch_calls w' = Suc (fetch_calls w)" "sleeps w' = sleeps w"
      "config (client w') = config (client w)"
      using try_attempt_snd [of parseInt fetch w] ta by simp_all
    show ?thesis
    proof (cases "(\<exists>d. res = Inr d) \<or> (\<exists>e. res = Inl e \<and> rethrown e)")
      case True
      then have "request_loop parseInt fetch random attempt lastError w = (res, w')"
        using le ta by (intro loop_done) simp_all
      then show ?thesis using w' le by simp
    next
      case False
      then obtain e where e: "res = Inl e" "\<not> rethrown e"
        by (cases res) auto
      show ?thesis
      proof (cases "int attempt < maxRetries (config (client w))")
        case True
        let ?w2 = "w'\<lparr>sleeps := sleeps w' @ [calculateBackoff attempt (random (length (sleeps w')))]\<rparr>"
        have eq: "request_loop parseInt fetch random attempt lastError w =
                  request_loop parseInt fetch random (Suc attempt) (Some e) ?w2"
          using True ta e by (intro loop_retry) simp_all
        have ih: "fetch_calls (snd (request_loop parseInt fetch random (Suc attempt) (Some e) ?w2))
             \<le> fetch_calls ?w2 + nat (maxRetries (config (client ?w2)) + 1 - int (Suc attempt))
           \<and> length (sleeps (snd (request_loop parseInt fetch random (Suc attempt) (Some e) ?w2)))
             \<le> length (sleeps ?w2) + nat (maxRetries (config (client ?w2)) - int (Suc attempt))
           \<and> config (client (snd (request_loop parseInt fetch random (Suc attempt) (Some e) ?w2)))
               = config (client ?w2)"
        proof -
          have lt': "int attempt < maxRetries (config (client w'))"
            using True w' by simp
          show ?thesis
            using "1.IH"(1) [OF le ta [symmetric] e(1) e(2) lt'] by simp
        qed
        define R where "R = snd (request_loop parseInt fetch random (Suc attempt) (Some e) ?w2)"
        define M where "M = maxRetries (config (client w))"
        have b1: "fetch_calls R \<le> Suc (fetch_calls w) + nat (M + 1 - int (Suc attempt))"
          and b2: "length (sleeps R) \<le> Suc (length (sleeps w)) + nat (M - int (Suc attempt))"
          and b3: "config (client R) = config (client w)"
          using ih w' by (simp_all add: R_def M_def)
        have lt: "int attempt < M" using True by (simp add: M_def)
        have "fetch_calls R \<le> fetch_calls w + nat (M + 1 - int attempt)"
          using b1 lt by linarith
        moreover have "length (sleeps R) \<le> length (sleeps w) + nat (M - int attempt)"
          using b2 lt by linarith
        ultimately show ?thesis
          unfolding eq using b3 by (simp add: R_def M_def)
      next
        case False
        with le have "int attempt = maxRetries (config (client w))" by simp
        then have "request_loop parseInt fetch random attempt lastError w = (Inl e, w')"
          using ta e by (intro loop_last) simp_all
        then show ?thesis using w' le by simp
      qed
    qed
  qed
qed

lemma loop_exhaust:
  assumes "n = nat (maxRetries (config (client w))) - a"
    and "fetch_calls w = a" and "length (sleeps w) = a"
    and "int a \<le> maxRetries (config (client w))"
    and "\<forall>i. a \<le> i \<and> int i \<le> maxRetries (config (client w)) \<longrightarrow>
           (\<exists>e. attempt_outcome (client w) (fetch i) = Inl e \<and> \<not> rethrown e)"
  shows "fst (request_loop parseInt fetch random a le w) =
           attempt_outcome (client w) (fetch (nat (maxRetries (config (client w)))))
       \<and> fetch_calls (snd (request_loop parseInt fetch random a le w))
           = nat (maxRetries (config (client w))) + 1
       \<and> sleeps (snd (request_loop parseInt fetch random a le w))
           = sleeps w @ map (\<lambda>i. calculateBackoff i (random i))
                          [a..<nat (maxRetries (config (client w)))]"
  using assms
proof (induction n arbitrary: a w le)
  case 0
  define M where "M = maxRetries (config (client w))"
  have aM: "int a = M" "nat M = a"
    using 0 by (simp_all add: M_def)
  obtain e where e: "attempt_outcome (client w) (fetch a) = Inl e"
    using 0 by (auto simp: M_def)
  obtain res w' where ta: "try_attempt parseInt fetch w = (res, w')"
    by (cases "try_attempt parseInt fetch w")
  have res: "res = Inl e"
    using fst_try_attempt [of parseInt fetch w] ta e 0 by simp
  have w': "fetch_calls w' = Suc a" "sleeps w' = sleeps w"
    using try_attempt_snd [of parseInt fetch w] ta 0 by simp_all
  have "request_loop parseInt fetch random a le w = (Inl e, w')"
    using aM ta res by (intro loop_last) (simp_all add: M_def)
  then show ?case
    using e w' aM by (simp add: M_def)
next
  case (Suc n)
  define M where "M = maxRetries (config (client w))"
  have lt: "int a < M" and Sa: "Suc a \<le> nat M"
    using Suc.prems by (simp_all add: M_def)
  obtain e where e: "attempt_outcome (client w) (fetch a) = Inl e" "\<not> rethrown e"
    using Suc.prems by (auto simp: M_def)
  obtain res w' where ta: "try_attempt parseInt fetch w = (res, w')"
    by (cases "try_attempt parseInt fetch w")
  have res: "res = Inl e"
    using fst_try_attempt [of parseInt fetch w] ta e Suc.prems by simp
  have w': "fetch_calls w' = Suc a" "sleeps w' = sleeps w" "config (client w') = config (client w)"
    using try_attempt_snd [of parseInt fetch w] ta Suc.prems by simp_all
  define w2 where "w2 = w'\<lparr>sleeps := sleeps w' @ [calculateBackoff a (random (length (sleeps w')))]\<rparr>"
  have eq: "request_loop parseInt fetch random a le w = request_loop parseInt fetch random (Suc a) (Some e) w2"
    unfolding w2_def using lt ta res e by (intro loop_retry) (simp_all add: M_def)
  have c2: "config (client w2) = config (client w)"
    using w' by (simp add: w2_def)
  have ao: "attempt_outcome (client w2) fr = attempt_outcome (client w) fr" for fr
    using c2 by (rule attempt_outcome_config_cong)
  have s2: "sleeps w2 = sleeps w @ [calculateBackoff a (random a)]"
    using w' Suc.prems by (simp add: w2_def)
  have ih: "fst (request_loop parseInt fetch random (Suc a) (Some e) w2) =
           attempt_outcome (client w2) (fetch (nat (maxRetries (config (client w2)))))
       \<and> fetch_calls (snd (request_loop parseInt fetch random (Suc a) (Some e) w2))
           = nat (maxRetries (config (client w2))) + 1
       \<and> sleeps (snd (request_loop parseInt fetch random (Suc a) (Some e) w2))
           = sleeps w2 @ map (\<lambda>i. calculateBackoff i (random i))
                          [Suc a..<nat (maxRetries (config (client w2)))]"
  proof (rule Suc.IH)
    show "n = nat (maxRetries (config (client w2))) - Suc a"
      using Suc.prems(1) c2 by simp
    show "fetch_calls w2 = Suc a" using w' by (simp add: w2_def)
    show "length (sleeps w2) = Suc a" using s2 Suc.prems by simp
    show "int (Suc a) \<le> maxRetries (config (client w2))"
      using lt c2 by (simp add: M_def)
    show "\<forall>i. Suc a \<le> i \<and> int i \<le> maxRetries (config (client w2)) \<longrightarrow>
           (\<exists>e. attempt_outcome (client w2) (fetch i) = Inl e \<and> \<not> rethrown e)"
      using Suc.prems(5) c2 ao by simp
  qed
  have upt: "[a..<nat M] = a # [Suc a..<nat M]"
    using Sa by (simp add: upt_conv_Cons)
  show ?case
    unfolding eq using ih c2 ao s2 upt by (simp add: M_def)
qed

lemma loop_client:
  "fetch_calls w \<le> fetch_calls (snd (request_loop parseInt fetch random attempt lastError w))
   \<and> client (snd (request_loop parseInt fetch random attempt lastError w)) =
       foldl (updateRateLimitInfo parseInt) (client w)
         (headers_seen fetch (fetch_calls w)
            (fetch_calls (snd (request_loop parseInt fetch random attempt lastError w))))"
proof (induction parseInt fetch random attempt lastError w rule: request_loop.induct)
  case (1 parseInt fetch random attempt lastError w)
  show ?case
  proof (cases "int attempt \<le> maxRetries (config (client w))")
    case False
    then show ?thesis by (simp add: loop_exit headers_seen_def)
  next
    case le: True
    obtain res w' where ta: "try_attempt parseInt fetch w = (res, w')"
      by (cases "try_attempt parseInt fetch w")
    have w': "fetch_calls w' = Suc (fetch_calls w)" "sleeps w' = sleeps w"
      "config (client w') = config (client w)"
      using try_attempt_snd [of parseInt fetch w] ta by simp_all
    have cl: "client w' = foldl (updateRateLimitInfo parseInt) (client w)
                 (headers_seen fetch (fetch_calls w) (Suc (fetch_calls w)))"
      using try_attempt_client [of parseInt fetch w] ta by simp
    show ?thesis
    proof (cases "(\<exists>d. res = Inr d) \<or> (\<exists>e. res = Inl e \<and> rethrown e)")
      case True
      then have "request_loop parseInt fetch random attempt lastError w = (res, w')"
        using le ta by (intro loop_done) simp_all
      then show ?thesis using w' cl by simp
    next
      case False
      then obtain e where e: "res = Inl e" "\<not> rethrown e"
        by (cases res) auto
      show ?thesis
      proof (cases "int attempt < maxRetries (config (client w))")
        case True
        let ?w2 = "w'\<lparr>sleeps := sleeps w' @ [calculateBackoff attempt (random (length (sleeps w')))]\<rparr>"
        have eq: "request_loop parseInt fetch random attempt lastError w =
                  request_loop parseInt fetch random (Suc attempt) (Some e) ?w2"
          using True ta e by (intro loop_retry) simp_all
        define R where "R = snd (request_loop parseInt fetch random (Suc attempt) (Some e) ?w2)"
        have lt': "int attempt < maxRetries (config (client w'))"
          using True w' by simp
        have ih: "fetch_calls ?w2 \<le> fetch_calls R
           \<and> client R = foldl (updateRateLimitInfo parseInt) (client ?w2)
                 (headers_seen fetch (fetch_calls ?w2) (fetch_calls R))"
          unfolding R_def using "1.IH"(1) [OF le ta [symmetric] e(1) e(2) lt'] by simp
        have m: "Suc (fetch_calls w) \<le> fetch_calls R"
          using ih w' by simp
        have "client R = foldl (updateRateLimitInfo parseInt) (client w)
                 (headers_seen fetch (fetch_calls w) (Suc (fetch_calls w))
                  @ headers_seen fetch (Suc (fetch_calls w)) (fetch_calls R))"
          using ih w' cl by simp
        also have "headers_seen fetch (fetch_calls w) (Suc (fetch_calls w))
                  @ headers_seen fetch (Suc (fetch_calls w)) (fetch_calls R)
                  = headers_seen fetch (fetch_calls w) (fetch_calls R)"
          using headers_seen_append [of "fetch_calls w" "Suc (fetch_calls w)" "fetch_calls R" fetch] m
          by simp
        finally show ?thesis
          unfolding eq using m by (simp add: R_def)
      next
        case False
        with le have "int attempt = maxRetries (config (client w))" by simp
        then have "request_loop parseInt fetch random attempt lastError w = (Inl e, w')"
          using ta e by (intro loop_last) simp_all
        then show ?thesis using w' cl by simp
      qed
    qed
  qed
qed

lemma request_loop_start:
  "buildUrl newURL this (path options) = Inr url \<Longrightarrow>
   request newURL parseInt fetch random this options =
     request_loop parseInt fetch random 0 None \<lparr>client = this, fetch_calls = 0, sleeps = []\<rparr>"
  by (simp add: request_def)

lemma loop_rethrown_response:
  assumes "int attempt \<le> maxRetries (config (client w))"
    and "fetch (fetch_calls w) = Resolves r"
    and "parseResponse r = Inl t" and "rethrown t"
  shows "request_loop parseInt fetch random attempt lastError w =
           (Inl t,
            w\<lparr>fetch_calls := Suc (fetch_calls w),
              client := updateRateLimitInfo parseInt (client w) (headers r)\<rparr>)"
  using assms try_attempt_resolves [of fetch w r parseInt]
  by (intro loop_done) simp_all

lemma request_rethrown_first:
  assumes "buildUrl newURL this (path options) = Inr url"
    and "0 \<le> maxRetries (config this)"
    and "fetch 0 = Resolves r"
    and "parseResponse r = Inl t" and "rethrown t"
  shows "request newURL parseInt fetch random this options =
           (Inl t, \<lparr>client = updateRateLimitInfo parseInt this (headers r), fetch_calls = 1, sleeps = []\<rparr>)"
  using request_loop_start [OF assms(1), of parseInt fetch random]
    loop_rethrown_response [of 0 "\<lparr>client = this, fetch_calls = 0, sleeps = []\<rparr>" fetch r t
      parseInt random None] assms
  by simp

lemma attempt_outcome_rejects:
  "\<exists>t. attempt_outcome this (Rejects name msg) = Inl t \<and> spec_retryable t"
  by (simp add: attempt_outcome_def executeRequest_def spec_retryable_def new_error_defs)

lemma attempt_outcome_5xx:
  assumes "500 \<le> status r" and "status r \<le> 599"
    and "\<forall>e. parseResponse r = Inl (Sendly e) \<longrightarrow> \<not> is_RateLimitError e"
  shows "\<exists>t. attempt_outcome this (Resolves r) = Inl t \<and> spec_retryable t"
  using parseResponse_5xx [OF assms] by (simp add: attempt_outcome_def executeRequest_def)

lemma request_rethrown_outcome:
  assumes "buildUrl newURL this (path options) = Inr url"
    and "0 \<le> maxRetries (config this)"
    and "attempt_outcome this (fetch 0) = Inl t" and "rethrown t"
  shows "fst (request newURL parseInt fetch random this options) = Inl t
       \<and> fetch_calls (snd (request newURL parseInt fetch random this options)) = 1
       \<and> sleeps (snd (request newURL parseInt fetch random this options)) = []"
proof -
  define w0 where "w0 = \<lparr>client = this, fetch_calls = 0, sleeps = []\<rparr>"
  obtain res w' where ta: "try_attempt parseInt fetch w0 = (res, w')"
    by (cases "try_attempt parseInt fetch w0")
  have res: "res = Inl t"
    using fst_try_attempt [of parseInt fetch w0] ta assms(3) by (simp add: w0_def)
  have w': "fetch_calls w' = 1" "sleeps w' = []"
    using try_attempt_snd [of parseInt fetch w0] ta by (simp_all add: w0_def)
  have "request_loop parseInt fetch random 0 None w0 = (res, w')"
    using loop_done [of 0 w0 parseInt fetch res w' random None] ta res assms(2,4) by (simp add: w0_def)
  then show ?thesis
    using request_loop_start [OF assms(1), of parseInt fetch random] res w' by (simp add: w0_def)
qed

lemma request_config:
  "config (client (snd (request newURL parseInt fetch random this options))) = config this"
proof (cases "buildUrl newURL this (path options)")
  case (Inl e)
  then show ?thesis by (simp add: request_def)
next
  case (Inr url)
  show ?thesis
    using request_loop_start [OF Inr, of parseInt fetch random]
      loop_bounds [of parseInt fetch random 0 None "\<lparr>client = this, fetch_calls = 0, sleeps = []\<rparr>"]
    by simp
qed

lemma request_500_500_200:
  assumes url: "buildUrl newURL this (path options) = Inr url"
    and mr: "2 \<le> maxRetries (config this)"
    and f: "fetch 0 = Resolves r0" "fetch 1 = Resolves r1" "fetch 2 = Resolves r2"
    and st: "status r0 = 500" "status r1 = 500" "status r2 = 200"
    and nrl: "\<forall>e. parseResponse r0 = Inl (Sendly e) \<longrightarrow> \<not> is_RateLimitError e"
             "\<forall>e. parseResponse r1 = Inl (Sendly e) \<longrightarrow> \<not> is_RateLimitError e"
    and d: "parseResponse r2 = Inr d"
  shows "request newURL parseInt fetch random this options =
           (Inr d,
            \<lparr>client = updateRateLimitInfo parseInt (updateRateLimitInfo parseInt (updateRateLimitInfo parseInt this
                         (headers r0)) (headers r1)) (headers r2),
             fetch_calls = 3,
             sleeps = [calculateBackoff 0 (random 0), calculateBackoff 1 (random 1)]\<rparr>)"
proof -
  obtain t0 where t0: "parseResponse r0 = Inl t0" "\<not> rethrown t0"
    using parseResponse_5xx [of r0] st nrl spec_retryable_not_rethrown by auto
  obtain t1 where t1: "parseResponse r1 = Inl t1" "\<not> rethrown t1"
    using parseResponse_5xx [of r1] st nrl spec_retryable_not_rethrown by auto
  define w0 where "w0 = \<lparr>client = this, fetch_calls = 0, sleeps = []\<rparr>"
  define w1 where "w1 = \<lparr>client = updateRateLimitInfo parseInt this (headers r0), fetch_calls = 1,
                           sleeps = [calculateBackoff 0 (random 0)]\<rparr>"
  define w2 where "w2 = \<lparr>client = updateRateLimitInfo parseInt (updateRateLimitInfo parseInt this (headers r0))
                                      (headers r1),
                           fetch_calls = 2,
                           sleeps = [calculateBackoff 0 (random 0), calculateBackoff 1 (random 1)]\<rparr>"
  have s0: "request_loop parseInt fetch random 0 None w0 = request_loop parseInt fetch random (Suc 0) (Some t0) w1"
  proof -
    have ta: "try_attempt parseInt fetch w0 =
               (Inl t0, \<lparr>client = updateRateLimitInfo parseInt this (headers r0), fetch_calls = 1, sleeps = []\<rparr>)"
      using try_attempt_resolves [of fetch w0 r0 parseInt] f(1) t0(1) by (simp add: w0_def)
    have "int 0 < maxRetries (config (client w0))" using mr by (simp add: w0_def)
    from loop_retry [OF this ta t0(2)] show ?thesis by (simp add: w1_def)
  qed
  have s1: "request_loop parseInt fetch random (Suc 0) (Some t0) w1 =
            request_loop parseInt fetch random (Suc (Suc 0)) (Some t1) w2"
  proof -
    have ta: "try_attempt parseInt fetch w1 =
               (Inl t1, \<lparr>client = updateRateLimitInfo parseInt (updateRateLimitInfo parseInt this (headers r0)) (headers r1),
                         fetch_calls = 2, sleeps = [calculateBackoff 0 (random 0)]\<rparr>)"
      using try_attempt_resolves [of fetch w1 r1 parseInt] f(2) t1(1) by (simp add: w1_def)
    have "int (Suc 0) < maxRetries (config (client w1))" using mr by (simp add: w1_def)
    from loop_retry [OF this ta t1(2)] show ?thesis by (simp add: w2_def)
  qed
  have s2: "request_loop parseInt fetch random (Suc (Suc 0)) (Some t1) w2 =
            (Inr d, \<lparr>client = updateRateLimitInfo parseInt (updateRateLimitInfo parseInt (updateRateLimitInfo parseInt this
                         (headers r0)) (headers r1)) (headers r2),
             fetch_calls = 3,
             sleeps = [calculateBackoff 0 (random 0), calculateBackoff 1 (random 1)]\<rparr>)"
  proof -
    have ta: "try_attempt parseInt fetch w2 =
               (Inr d, \<lparr>client = updateRateLimitInfo parseInt (updateRateLimitInfo parseInt (updateRateLimitInfo parseInt this
                         (headers r0)) (headers r1)) (headers r2),
             fetch_calls = 3,
             sleeps = [calculateBackoff 0 (random 0), calculateBackoff 1 (random 1)]\<rparr>)"
      using try_attempt_resolves [of fetch w2 r2 parseInt] f(3) d by (simp add: w2_def numeral_2_eq_2)
    have "int (Suc (Suc 0)) \<le> maxRetries (config (client w2))" using mr by (simp add: w2_def)
    from loop_done [OF this ta] show ?thesis by simp
  qed
  show ?thesis
    using request_loop_start [OF url, of parseInt fetch random] s0 s1 s2 by (simp add: w0_def)
qed

lemma request_exhausted:
  assumes url: "buildUrl newURL this (path options) = Inr url"
    and mr: "0 \<le> maxRetries (config this)"
    and fail: "\<forall>i. int i \<le> maxRetries (config this) \<longrightarrow>
           (\<exists>e. attempt_outcome this (fetch i) = Inl e \<and> \<not> rethrown e)"
  shows "fst (request newURL parseInt fetch random this options)
           = attempt_outcome this (fetch (nat (maxRetries (config this))))
       \<and> fetch_calls (snd (request newURL parseInt fetch random this options))
           = nat (maxRetries (config this)) + 1
       \<and> sleeps (snd (request newURL parseInt fetch random this options))
           = map (\<lambda>i. calculateBackoff i (random i)) [0..<nat (maxRetries (config this))]"
proof -
  define w0 where "w0 = \<lparr>client = this, fetch_calls = 0, sleeps = []\<rparr>"
  have "fst (request_loop parseInt fetch random 0 None w0) =
           attempt_outcome (client w0) (fetch (nat (maxRetries (config (client w0)))))
       \<and> fetch_calls (snd (request_loop parseInt fetch random 0 None w0))
           = nat (maxRetries (config (client w0))) + 1
       \<and> sleeps (snd (request_loop parseInt fetch random 0 None w0))
           = sleeps w0 @ map (\<lambda>i. calculateBackoff i (random i))
                          [0..<nat (maxRetries (config (client w0)))]"
    by (rule loop_exhaust) (use mr fail in \<open>simp_all add: w0_def\<close>)
  then show ?thesis
    using request_loop_start [OF url, of parseInt fetch random]
    by (simp add: w0_def split: prod.splits)
qed

lemma request_no_attempt:
  assumes url: "buildUrl newURL this (path options) = Inr url"
    and mr: "maxRetries (config this) < 0"
  shows "request newURL parseInt fetch random this options =
           (Inl (Sendly (new_NetworkError ''Request failed after retries'')),
            \<lparr>client = this, fetch_calls = 0, sleeps = []\<rparr>)"
  using request_loop_start [OF url, of parseInt fetch random] mr
  by (simp add: loop_exit)

lemma request_bounds:
  "fetch_calls (snd (request newURL parseInt fetch random this options))
      \<le> nat (maxRetries (config this) + 1)
   \<and> length (sleeps (snd (request newURL parseInt fetch random this options)))
      \<le> nat (maxRetries (config this))"
proof (cases "buildUrl newURL this (path options)")
  case (Inl e)
  then show ?thesis by (simp add: request_def)
next
  case (Inr url)
  show ?thesis
    using request_loop_start [OF Inr, of parseInt fetch random]
      loop_bounds [of parseInt fetch random 0 None "\<lparr>client = this, fetch_calls = 0, sleeps = []\<rparr>"]
    by simp
qed

lemma request_client:
  "client (snd (request newURL parseInt fetch random this options)) =
     foldl (updateRateLimitInfo parseInt) this
       (headers_seen fetch 0 (fetch_calls (snd (request newURL parseInt fetch random this options))))"
proof (cases "buildUrl newURL this (path options)")
  case (Inl e)
  then show ?thesis by (simp add: request_def headers_seen_def)
next
  case (Inr url)
  show ?thesis
    using request_loop_start [OF Inr, of parseInt fetch random]
      loop_client [of "\<lparr>client = this, fetch_calls = 0, sleeps = []\<rparr>" parseInt fetch random 0 None]
    by simp
qed

lemma request_single_attempt:
  assumes url: "buildUrl newURL this (path options) = Inr url"
    and mr: "maxRetries (config this) = 0"
  shows "fetch_calls (snd (request newURL parseInt fetch random this options)) = 1
       \<and> sleeps (snd (request newURL parseInt fetch random this options)) = []"
proof -
  define w0 where "w0 = \<lparr>client = this, fetch_calls = 0, sleeps = []\<rparr>"
  obtain res w' where ta: "try_attempt parseInt fetch w0 = (res, w')"
    by (cases "try_attempt parseInt fetch w0")
  have w': "fetch_calls w' = 1" "sleeps w' = []"
    using try_attempt_snd [of parseInt fetch w0] ta by (simp_all add: w0_def)
  have "request_loop parseInt fetch random 0 None w0 = (res, w')"
  proof (cases res)
    case (Inl e)
    show ?thesis
      using loop_last [of 0 w0 parseInt fetch e w' random None] ta Inl mr by (simp add: w0_def)
  next
    case (Inr d)
    show ?thesis
      using loop_done [of 0 w0 parseInt fetch res w' random None] ta Inr mr by (simp add: w0_def)
  qed
  then show ?thesis
    using request_loop_start [OF url, of parseInt fetch random] w' by (simp add: w0_def)
qed

lemma Sendly_constructor_config:
  assumes "Sendly_constructor newURL (ConfigObject cfg) = Inr s"
  shows "config (http s) = sendly_config s"
    and "timeout (sendly_config s) = num_or (opt_timeout cfg) DEFAULT_TIMEOUT2"
    and "maxRetries (sendly_config s) = nullish_or (opt_maxRetries cfg) DEFAULT_MAX_RETRIES2"
  using assms
  by (auto simp: Sendly_constructor_def HttpClient_constructor_def Let_def str_or_def num_or_def
        nullish_or_def DEFAULT_TIMEOUT_def DEFAULT_TIMEOUT2_def DEFAULT_BASE_URL2_def
      split: sum.splits option.splits if_splits)

lemma HttpClient_constructor_fails_iff:
  "(\<exists>e. HttpClient_constructor newURL cfg = Inl e) \<longleftrightarrow>
     (\<not> isValidApiKey (opt_apiKey cfg)
      \<or> (case newURL (str_or (opt_baseUrl cfg) DEFAULT_BASE_URL) of
            None \<Rightarrow> True
          | Some u \<Rightarrow> protocol u \<noteq> ''https:'' \<and> \<not> str_includes (hostname u) ''localhost''
                       \<and> hostname u \<noteq> ''127.0.0.1''))"
  by (auto simp: HttpClient_constructor_def Let_def split: option.splits)

subsection \<open>The scenarios\<close>

lemma sample_client_constructed:
  "HttpClient_constructor URL_table
     \<lparr>opt_apiKey = ''sk_test_v1_abc123'', opt_baseUrl = None, opt_timeout = None,
      opt_maxRetries = None\<rparr> = Inr sample_client"
  by (simp add: HttpClient_constructor_def URL_table_def sample_client_def Let_def
      isValidApiKey_def token_char_def str_or_def num_or_def nullish_or_def
      DEFAULT_BASE_URL_def DEFAULT_TIMEOUT_def DEFAULT_MAX_RETRIES_def)

lemma buildUrl_sample:
  "buildUrl URL_table sample_client ''/v1/messages'' =
     Inr \<lparr>protocol = ''https:'', hostname = ''sendly.live''\<rparr>"
  by (simp add: buildUrl_def sample_client_def URL_table_def Let_def)

lemma parse_401:
  "parseResponse response_401 =
     Inl (Sendly \<lparr>kind = Authentication, message = JStr ''Invalid API key'',
                   code = JStr ''unauthorized'', statusCode = Some 401,
                   response = Some [(''error'', JStr ''unauthorized''),
                                    (''message'', JStr ''Invalid API key'')]\<rparr>)"
  by (simp add: parseResponse_def response_401_def json_headers_def ok_def Let_def
        fromResponse_def or_else_def get_prop_def new_error_defs)

lemma parse_500:
  "parseResponse response_500 =
     Inl (Sendly \<lparr>kind = Generic, message = JStr ''Server error'',
                   code = JStr ''internal_error'', statusCode = Some 500,
                   response = Some [(''error'', JStr ''internal_error''),
                                    (''message'', JStr ''Server error'')]\<rparr>)"
  by (simp add: parseResponse_def response_500_def json_headers_def ok_def Let_def
        fromResponse_def or_else_def get_prop_def new_error_defs)

lemma parse_200: "parseResponse response_200 = Inr (JObj [(''id'', JStr ''msg_1'')])"
  by (simp add: parseResponse_def response_200_def rate_headers_def ok_def Let_def)

lemma update_rate_headers:
  "updateRateLimitInfo parseInt_table c rate_headers =
     c\<lparr>rateLimitInfo := Some \<lparr>limit = Finite 100, remaining = Finite 42, reset = Finite 60\<rparr>\<rparr>"
  by (simp add: updateRateLimitInfo_def rate_headers_def parseInt_table_def)

lemma update_json_headers: "updateRateLimitInfo parseInt c json_headers = c"
  by (simp add: updateRateLimitInfo_def json_headers_def)

subsection \<open>Signatures\<close>

lemma unat_of_char_byte: "unat (of_char c :: byte) = of_char c"
proof -
  have "(of_char c :: byte) = of_nat (of_char c)"
    by (simp only: of_nat_of_char)
  then have "unat (of_char c :: byte) = (of_char c :: nat) mod 256"
    by (simp add: unat_of_nat)
  then show ?thesis by simp
qed

lemma Buffer_from_eq_iff: "Buffer_from a = Buffer_from b \<longleftrightarrow> a = b"
proof
  assume h: "Buffer_from a = Buffer_from b"
  have "map unat (Buffer_from a) = map (of_char :: char \<Rightarrow> nat) a" for a
    by (simp add: Buffer_from_def unat_of_char_byte)
  with h have "map (of_char :: char \<Rightarrow> nat) a = map of_char b"
    by metis
  then show "a = b"
    by (simp add: inj_map_eq_map [OF inj_of_char])
qed simp

lemma length_Buffer_from: "length (Buffer_from a) = length a"
  by (simp add: Buffer_from_def)

lemma generateWebhookSignature_nonempty: "generateWebhookSignature p s \<noteq> []"
  by (simp add: generateWebhookSignature_def)

lemma verify_iff:
  "verifyWebhookSignature payload signature secret \<longleftrightarrow>
     (\<exists>p sk. payload = Some p \<and> secret = Some sk \<and> p \<noteq> [] \<and> sk \<noteq> []
        \<and> signature = Some (generateWebhookSignature p sk))"
  by (auto simp: verifyWebhookSignature_def timingSafeEqual_def Let_def Buffer_from_eq_iff
        length_Buffer_from generateWebhookSignature_nonempty
      split: option.splits)

lemma length_sha256_round: "length (sha256_round kw s) = length s"
  by (induction kw s rule: sha256_round.induct) (simp_all add: Let_def)

lemma length_fold_sha256_round: "length (fold sha256_round kws s) = length s"
  by (induction kws arbitrary: s) (simp_all add: length_sha256_round)

lemma length_sha256_compress: "length (sha256_compress hs block) = length hs"
  by (simp add: sha256_compress_def length_fold_sha256_round)

lemma length_sha256_blocks: "length (sha256_blocks n hs bs) = length hs"
  by (induction n arbitrary: hs bs) (simp_all add: length_sha256_compress)

lemma length_concat_be_bytes: "length (concat (map be_bytes ws)) = 4 * length ws"
  by (induction ws) (simp_all add: be_bytes_def)

lemma length_sha256: "length (sha256 m) = 32"
  by (simp add: sha256_def Let_def length_concat_be_bytes length_sha256_blocks sha256_H0_def)

lemma length_hmac_sha256: "length (hmac_sha256 key msg) = 32"
  by (simp add: hmac_sha256_def Let_def length_sha256)

lemma length_hex: "length (hex bs) = 2 * length bs"
  by (induction bs) (simp_all add: hex_def)

lemma hex_digit_in: "n < 16 \<Longrightarrow> hex_digit n \<in> set ''0123456789abcdef''"
  unfolding hex_digit_def by (rule nth_mem) simp

lemma unat_byte_div: "unat (b :: byte) div 16 < 16"
proof -
  have "unat b < 256" using unsigned_less [of b] by simp
  then show ?thesis by simp
qed

lemma set_hex: "set (hex bs) \<subseteq> set ''0123456789abcdef''"
proof (induction bs)
  case Nil
  show ?case by (simp add: hex_def)
next
  case (Cons b bs)
  have "hex (b # bs) = [hex_digit (unat b div 16), hex_digit (unat b mod 16)] @ hex bs"
    by (simp add: hex_def)
  moreover have "hex_digit (unat b div 16) \<in> set ''0123456789abcdef''"
    by (rule hex_digit_in) (rule unat_byte_div)
  moreover have "hex_digit (unat b mod 16) \<in> set ''0123456789abcdef''"
    by (rule hex_digit_in) simp
  ultimately show ?case using Cons.IH by (simp only: set_append) auto
qed

lemma sha256_abc:
  "hex (sha256 (Buffer_from ''abc'')) =
     ''ba7816bf8f01cfea414140de5dae2223b00361a396177a9cb410ff61f20015ad''"
  by code_simp

lemma signature_format:
  "take 7 (generateWebhookSignature p s) = ''sha256=''
   \<and> length (generateWebhookSignature p s) = 71
   \<and> set (drop 7 (generateWebhookSignature p s)) \<subseteq> set ''0123456789abcdef''"
proof -
  have "drop 7 (generateWebhookSignature p s) = hex (hmac_sha256 (Buffer_from s) (Buffer_from p))"
    by (simp add: generateWebhookSignature_def)
  then have "set (drop 7 (generateWebhookSignature p s)) \<subseteq> set ''0123456789abcdef''"
    by (simp only: set_hex)
  moreover have "take 7 (generateWebhookSignature p s) = ''sha256=''"
    by (simp add: generateWebhookSignature_def)
  moreover have "length (generateWebhookSignature p s) = 71"
    by (simp add: generateWebhookSignature_def length_hex length_hmac_sha256)
  ultimately show ?thesis by blast
qed

lemma signature_length_differs:
  assumes "length sg \<noteq> 71"
  shows "sg \<noteq> generateWebhookSignature p sk"
proof
  assume "sg = generateWebhookSignature p sk"
  then have "length sg = 71"
    using signature_format [of p sk] by simp
  with assms show False by simp
qed

lemma parse_signature_error_iff:
  "parseWebhookEvent JSON_parse payload signature secret = Inl WebhookSignatureError
     \<longleftrightarrow> \<not> verifyWebhookSignature payload signature secret"
  by (simp add: parseWebhookEvent_def split: option.splits)

lemma parse_returns:
  assumes "parseWebhookEvent JSON_parse payload signature secret = Inr event"
  shows "verifyWebhookSignature payload signature secret
          \<and> (\<exists>p. payload = Some p \<and> JSON_parse p = Some event)
          \<and> truthy (opt_prop event ''id'') \<and> truthy (opt_prop event ''type'')
          \<and> truthy (opt_prop event ''createdAt'')"
  using assms by (auto simp: parseWebhookEvent_def split: option.splits if_splits)

subsection \<open>Claim about the backoff\<close>

text \<open>
  Claim C4. For every attempt number \<open>n\<close> and every draw \<open>r\<close> of the random source in
  \<open>[0, 1)\<close>, the jitter \<open>j = r * 500\<close> lies in \<open>[0, 500)\<close> and the backoff is
  \<open>min (2 ^ n * 1000 + j) 30000\<close> milliseconds. Whenever the backoffs of two consecutive
  attempts \<open>n\<close> and \<open>n + 1\<close> are both below the cap of 30000 ms, the second is strictly
  greater than the first, whatever the two jitter draws are.
\<close>

theorem calculateBackoff_formula_and_growth:
  assumes "0 \<le> r" and "r < 1" and "0 \<le> r'" and "r' < 1"
  shows "0 \<le> r * 500 \<and> r * 500 < 500 \<and>
         calculateBackoff n r = min (2 ^ n * 1000 + r * 500) 30000 \<and>
         (calculateBackoff n r < 30000 \<and> calculateBackoff (Suc n) r' < 30000
            \<longrightarrow> calculateBackoff n r < calculateBackoff (Suc n) r')"
proof -
  define a where "a = 2 ^ n * 1000 + r * 500"
  define b where "b = 2 ^ Suc n * 1000 + r' * 500"
  have pow: "(1000::real) \<le> 2 ^ n * 1000" by simp
  have j: "0 \<le> r * 500" "r * 500 < 500" and j': "0 \<le> r' * 500"
    using assms by simp_all
  have "a < 2 ^ n * 1000 + 2 ^ n * 1000 + r' * 500"
    unfolding a_def using pow j j' by linarith
  then have lt: "a < b"
    by (simp add: b_def)
  have eqs: "calculateBackoff n r = min a 30000" "calculateBackoff (Suc n) r' = min b 30000"
    by (simp_all only: calculateBackoff_def Let_def a_def b_def)
  have "min a 30000 < 30000 \<and> min b 30000 < 30000 \<longrightarrow> min a 30000 < min b 30000"
    using lt by (simp add: min_def)
  then show ?thesis
    using j eqs by (simp only: a_def simp_thms)
qed

theorem calculateBackoff_formula_and_growth_witness:
  "(0::real) \<le> 1/2 \<and> (1/2::real) < 1 \<and> (0::real) < 1 \<and>
   calculateBackoff 1 (1/2) = 2250 \<and> calculateBackoff 2 0 = 4000 \<and>
   calculateBackoff 1 (1/2) < calculateBackoff 2 0"
  using calculateBackoff_formula_and_growth [of "1/2" 0 1]
  by (simp add: calculateBackoff_def Let_def)

subsection \<open>Claims about the retry loop\<close>

text \<open>
  Claim C2. When an attempt produces a classified error whose status is 401, 403, 400,
  404 or 402, or a \<open>RateLimitError\<close> of any status, the loop throws that error at once:
  \<open>fetch\<close> has been invoked once for that attempt, nothing is added to the waits, and no
  further attempt is made. When this happens on the first attempt, \<open>request\<close> fails with
  that error after exactly one invocation of \<open>fetch\<close> and no sleep. Such an error is
  the classification of a response \<open>r\<close>, whose rate-limit headers have been recorded.
\<close>

theorem request_rethrows_immediately:
  assumes "statusCode e \<in> {Some 401, Some 403, Some 400, Some 404, Some 402}
           \<or> is_RateLimitError e"
  shows "(int attempt \<le> maxRetries (config (client w))
            \<and> try_attempt parseInt fetch w = (Inl (Sendly e), w')
          \<longrightarrow> request_loop parseInt fetch random attempt lastError w = (Inl (Sendly e), w')
              \<and> fetch_calls w' = Suc (fetch_calls w) \<and> sleeps w' = sleeps w)
       \<and> (buildUrl newURL this (path options) = Inr url \<and> 0 \<le> maxRetries (config this)
            \<and> attempt_outcome this (fetch 0) = Inl (Sendly e)
          \<longrightarrow> fst (request newURL parseInt fetch random this options) = Inl (Sendly e)
              \<and> fetch_calls (snd (request newURL parseInt fetch random this options)) = 1
              \<and> sleeps (snd (request newURL parseInt fetch random this options)) = [])
       \<and> (buildUrl newURL this (path options) = Inr url \<and> 0 \<le> maxRetries (config this)
            \<and> fetch 0 = Resolves r \<and> parseResponse r = Inl (Sendly e)
          \<longrightarrow> request newURL parseInt fetch random this options =
                (Inl (Sendly e),
                 \<lparr>client = updateRateLimitInfo parseInt this (headers r), fetch_calls = 1, sleeps = []\<rparr>))"
proof -
  have re: "rethrown (Sendly e)"
    using assms by auto
  have p1: "request_loop parseInt fetch random attempt lastError w = (Inl (Sendly e), w')
              \<and> fetch_calls w' = Suc (fetch_calls w) \<and> sleeps w' = sleeps w"
    if "int attempt \<le> maxRetries (config (client w))"
      and "try_attempt parseInt fetch w = (Inl (Sendly e), w')"
    using loop_done [OF that, of random lastError] try_attempt_snd(1,2) [of parseInt fetch w] that(2) re
    by simp
  have p2: "fst (request newURL parseInt fetch random this options) = Inl (Sendly e)
              \<and> fetch_calls (snd (request newURL parseInt fetch random this options)) = 1
              \<and> sleeps (snd (request newURL parseInt fetch random this options)) = []"
    if "buildUrl newURL this (path options) = Inr url" and "0 \<le> maxRetries (config this)"
      and "attempt_outcome this (fetch 0) = Inl (Sendly e)"
    using request_rethrown_outcome [of newURL this options url fetch "Sendly e" parseInt random] that re
    by simp
  show ?thesis
    using p1 p2 request_rethrown_first [of newURL this options url fetch r "Sendly e" parseInt random] re
    by blast
qed

text \<open>
  A transport that answers 401 with the body
  \<open>{"error": "unauthorized", "message": "Invalid API key"}\<close>: \<open>request\<close> throws the
  \<open>AuthenticationError\<close> after one invocation and without sleeping.
\<close>

theorem request_rethrows_immediately_witness:
  "request URL_table parseInt_table (\<lambda>i. Resolves response_401) (\<lambda>i. 0) sample_client
       \<lparr>path = ''/v1/messages''\<rparr> =
     (Inl (Sendly \<lparr>kind = Authentication, message = JStr ''Invalid API key'',
                   code = JStr ''unauthorized'', statusCode = Some 401,
                   response = Some [(''error'', JStr ''unauthorized''),
                                    (''message'', JStr ''Invalid API key'')]\<rparr>),
      \<lparr>client = sample_client, fetch_calls = 1, sleeps = []\<rparr>)"
proof -
  let ?e = "\<lparr>kind = Authentication, message = JStr ''Invalid API key'',
             code = JStr ''unauthorized'', statusCode = Some 401,
             response = Some [(''error'', JStr ''unauthorized''),
                              (''message'', JStr ''Invalid API key'')]\<rparr>"
  have st: "statusCode ?e \<in> {Some 401, Some 403, Some 400, Some 404, Some 402}
            \<or> is_RateLimitError ?e"
    by simp
  have up: "updateRateLimitInfo parseInt_table sample_client (headers response_401) = sample_client"
    by (simp add: response_401_def update_json_headers)
  show ?thesis
    using request_rethrows_immediately [where e = "?e" and newURL = URL_table
        and this = sample_client and options = "\<lparr>path = ''/v1/messages''\<rparr>"
        and url = "\<lparr>protocol = ''https:'', hostname = ''sendly.live''\<rparr>"
        and fetch = "\<lambda>i. Resolves response_401" and random = "\<lambda>i. 0"
        and r = response_401, OF st]
      buildUrl_sample parse_401 up
    by (simp add: sample_client_def)
qed

text \<open>
  Claim C3. Under the assumption that \<open>buildUrl\<close> returns:
  \<^item> every outcome that the specification lists as retryable (a network failure, a
    timeout, a 5xx error that is not a \<open>RateLimitError\<close>, a failure that is not a
    \<open>SendlyError\<close>) is not thrown again at once; a \<open>fetch\<close> that rejects gives such an
    outcome (a \<open>TimeoutError\<close> or a \<open>NetworkError\<close>), and so does a response with a
    status from 500 to 599 that is not classified as \<open>RateLimitError\<close>;
  \<^item> after an attempt numbered \<open>attempt < maxRetries\<close> that fails with such an outcome,
    or with any error that is not thrown again at once, the loop sleeps for
    \<open>calculateBackoff attempt\<close> and goes on with attempt \<open>attempt + 1\<close>;
  \<^item> \<open>fetch\<close> is invoked at most \<open>maxRetries + 1\<close> times, that is at most 4 times with
    the default \<open>maxRetries = 3\<close>, which the constructor sets when none is given;
  \<^item> with responses of status 500, 500 and 200 to the first three invocations (the two
    500 responses not classified as \<open>RateLimitError\<close>, the body of the 200 response
    readable), \<open>request\<close> returns the data of the third response after exactly three
    invocations and two sleeps;
  \<^item> when every attempt from 0 to \<open>maxRetries\<close> fails with an error that is not thrown
    again at once, \<open>request\<close> throws the error of the last attempt after
    \<open>maxRetries + 1\<close> invocations and \<open>maxRetries\<close> sleeps; when no attempt is made
    (\<open>maxRetries < 0\<close>), it throws the generic \<open>NetworkError\<close>.
\<close>

theorem request_retry_policy:
  assumes url: "buildUrl newURL this (path options) = Inr url"
  shows "(spec_retryable t \<longrightarrow> \<not> rethrown t)
     \<and> (\<exists>t. attempt_outcome this (Rejects name msg) = Inl t \<and> spec_retryable t)
     \<and> (500 \<le> status r \<and> status r \<le> 599
          \<and> (\<forall>e. parseResponse r = Inl (Sendly e) \<longrightarrow> \<not> is_RateLimitError e)
        \<longrightarrow> (\<exists>t. attempt_outcome this (Resolves r) = Inl t \<and> spec_retryable t))
     \<and> (int attempt < maxRetries (config (client w)) \<and> try_attempt parseInt fetch' w = (Inl t', w')
          \<and> (spec_retryable t' \<or> \<not> rethrown t')
        \<longrightarrow> request_loop parseInt fetch' random attempt lastError w =
              request_loop parseInt fetch' random (Suc attempt) (Some t')
                (w'\<lparr>sleeps := sleeps w' @
                       [calculateBackoff attempt (random (length (sleeps w')))]\<rparr>)
            \<and> fetch_calls w' = Suc (fetch_calls w))
     \<and> fetch_calls (snd (request newURL parseInt fetch random this options))
          \<le> nat (maxRetries (config this) + 1)
     \<and> (maxRetries (config this) = DEFAULT_MAX_RETRIES
        \<longrightarrow> fetch_calls (snd (request newURL parseInt fetch random this options)) \<le> 4)
     \<and> (HttpClient_constructor newURL cfg = Inr this \<and> opt_maxRetries cfg = None
        \<longrightarrow> maxRetries (config this) = DEFAULT_MAX_RETRIES)
     \<and> (2 \<le> maxRetries (config this)
          \<and> fetch 0 = Resolves r0 \<and> fetch 1 = Resolves r1 \<and> fetch 2 = Resolves r2
          \<and> status r0 = 500 \<and> status r1 = 500 \<and> status r2 = 200
          \<and> (\<forall>e. parseResponse r0 = Inl (Sendly e) \<longrightarrow> \<not> is_RateLimitError e)
          \<and> (\<forall>e. parseResponse r1 = Inl (Sendly e) \<longrightarrow> \<not> is_RateLimitError e)
          \<and> parseResponse r2 = Inr d
        \<longrightarrow> request newURL parseInt fetch random this options =
              (Inr d,
               \<lparr>client = updateRateLimitInfo parseInt (updateRateLimitInfo parseInt (updateRateLimitInfo parseInt this
                            (headers r0)) (headers r1)) (headers r2),
                fetch_calls = 3,
                sleeps = [calculateBackoff 0 (random 0), calculateBackoff 1 (random 1)]\<rparr>))
     \<and> (0 \<le> maxRetries (config this)
          \<and> (\<forall>i. int i \<le> maxRetries (config this) \<longrightarrow>
                 (\<exists>e. attempt_outcome this (fetch i) = Inl e \<and> \<not> rethrown e))
        \<longrightarrow> fst (request newURL parseInt fetch random this options)
                = attempt_outcome this (fetch (nat (maxRetries (config this))))
            \<and> fetch_calls (snd (request newURL parseInt fetch random this options))
                = nat (maxRetries (config this)) + 1
            \<and> sleeps (snd (request newURL parseInt fetch random this options))
                = map (\<lambda>i. calculateBackoff i (random i)) [0..<nat (maxRetries (config this))])
     \<and> (maxRetries (config this) < 0
        \<longrightarrow> request newURL parseInt fetch random this options =
              (Inl (Sendly (new_NetworkError ''Request failed after retries'')),
               \<lparr>client = this, fetch_calls = 0, sleeps = []\<rparr>))"
proof -
  have p1: "spec_retryable t \<longrightarrow> \<not> rethrown t"
    using spec_retryable_not_rethrown by blast
  have p2: "int attempt < maxRetries (config (client w)) \<and> try_attempt parseInt fetch' w = (Inl t', w')
          \<and> (spec_retryable t' \<or> \<not> rethrown t')
        \<longrightarrow> request_loop parseInt fetch' random attempt lastError w =
              request_loop parseInt fetch' random (Suc attempt) (Some t')
                (w'\<lparr>sleeps := sleeps w' @
                       [calculateBackoff attempt (random (length (sleeps w')))]\<rparr>)
            \<and> fetch_calls w' = Suc (fetch_calls w)"
    using loop_retry [of attempt w parseInt fetch' t' w' random lastError] try_attempt_snd(1) [of parseInt fetch' w]
      spec_retryable_not_rethrown [of t']
    by auto
  have p3: "fetch_calls (snd (request newURL parseInt fetch random this options))
          \<le> nat (maxRetries (config this) + 1)"
    using request_bounds by blast
  have p4: "maxRetries (config this) = DEFAULT_MAX_RETRIES
        \<longrightarrow> fetch_calls (snd (request newURL parseInt fetch random this options)) \<le> 4"
    using p3 by (auto simp: DEFAULT_MAX_RETRIES_def)
  have p5: "HttpClient_constructor newURL cfg = Inr this \<and> opt_maxRetries cfg = None
        \<longrightarrow> maxRetries (config this) = DEFAULT_MAX_RETRIES"
    by (auto simp: HttpClient_constructor_def Let_def nullish_or_def
        split: if_splits option.splits)
  note p6 = request_500_500_200 [OF url, of fetch r0 r1 r2 d parseInt random]
  note p7 = request_exhausted [OF url, of fetch parseInt random]
  note p8 = request_no_attempt [OF url, of parseInt fetch random]
  note p9 = attempt_outcome_rejects [of this name msg]
  note p10 = attempt_outcome_5xx [of r this]
  show ?thesis
    using p1 p2 p3 p4 p5 p6 p7 p8 p9 p10 by blast
qed

text \<open>
  The two scenarios with the default configuration and a jitter of 0: responses 500, 500,
  200 give the data after three invocations and the waits 1000 and 2000; a transport that
  always answers 500 gives the error of the fourth response after four invocations and
  the waits 1000, 2000 and 4000.
\<close>

theorem request_retry_policy_witness:
  "request URL_table parseInt_table fetch_500_500_200 (\<lambda>i. 0) sample_client \<lparr>path = ''/v1/messages''\<rparr> =
     (Inr (JObj [(''id'', JStr ''msg_1'')]),
      \<lparr>client = sample_client\<lparr>rateLimitInfo :=
                   Some \<lparr>limit = Finite 100, remaining = Finite 42, reset = Finite 60\<rparr>\<rparr>,
       fetch_calls = 3, sleeps = [1000, 2000]\<rparr>)
   \<and> fst (request URL_table parseInt_table (\<lambda>i. Resolves response_500) (\<lambda>i. 0) sample_client
            \<lparr>path = ''/v1/messages''\<rparr>) =
        Inl (Sendly \<lparr>kind = Generic, message = JStr ''Server error'',
                          code = JStr ''internal_error'', statusCode = Some 500,
                          response = Some [(''error'', JStr ''internal_error''),
                                           (''message'', JStr ''Server error'')]\<rparr>)
   \<and> fetch_calls (snd (request URL_table parseInt_table (\<lambda>i. Resolves response_500) (\<lambda>i. 0) sample_client
            \<lparr>path = ''/v1/messages''\<rparr>)) = 4
   \<and> sleeps (snd (request URL_table parseInt_table (\<lambda>i. Resolves response_500) (\<lambda>i. 0) sample_client
            \<lparr>path = ''/v1/messages''\<rparr>)) = [1000, 2000, 4000]"
proof -
  have url: "buildUrl URL_table sample_client (path \<lparr>path = ''/v1/messages''\<rparr>) =
               Inr \<lparr>protocol = ''https:'', hostname = ''sendly.live''\<rparr>"
    using buildUrl_sample by simp
  have mr: "maxRetries (config sample_client) = 3"
    by (simp add: sample_client_def)
  have nrl: "\<forall>e. parseResponse response_500 = Inl (Sendly e) \<longrightarrow> \<not> is_RateLimitError e"
    by (simp add: parse_500 is_RateLimitError_def)
  have st: "status response_500 = 500" "status response_200 = 200"
    "headers response_500 = json_headers" "headers response_200 = rate_headers"
    by (simp_all add: response_500_def response_200_def)
  have ao: "attempt_outcome sample_client (Resolves response_500) = parseResponse response_500"
    by (simp add: attempt_outcome_def executeRequest_def)
  have nr: "\<exists>e. parseResponse response_500 = Inl e \<and> \<not> rethrown e"
    by (simp add: parse_500 is_RateLimitError_def)
  have bk: "calculateBackoff 0 0 = 1000" "calculateBackoff 1 0 = 2000"
    "calculateBackoff 2 0 = 4000"
    by (simp_all add: calculateBackoff_def)
  have upt3: "[0..<nat 3] = [0, 1, 2]"
    by (simp add: upt_rec)
  have a: "request URL_table parseInt_table fetch_500_500_200 (\<lambda>i. 0) sample_client
             \<lparr>path = ''/v1/messages''\<rparr> =
     (Inr (JObj [(''id'', JStr ''msg_1'')]),
      \<lparr>client = sample_client\<lparr>rateLimitInfo :=
                   Some \<lparr>limit = Finite 100, remaining = Finite 42, reset = Finite 60\<rparr>\<rparr>,
       fetch_calls = 3, sleeps = [1000, 2000]\<rparr>)"
    using request_retry_policy [OF url, where fetch = fetch_500_500_200 and random = "\<lambda>i. 0"
        and ?r0.0 = response_500 and ?r1.0 = response_500 and ?r2.0 = response_200
        and d = "JObj [(''id'', JStr ''msg_1'')]"]
      mr nrl st parse_200 bk
    by (simp add: fetch_500_500_200_def update_json_headers update_rate_headers)
  have b: "fst (request URL_table parseInt_table (\<lambda>i. Resolves response_500) (\<lambda>i. 0) sample_client
            \<lparr>path = ''/v1/messages''\<rparr>) =
        Inl (Sendly \<lparr>kind = Generic, message = JStr ''Server error'',
                          code = JStr ''internal_error'', statusCode = Some 500,
                          response = Some [(''error'', JStr ''internal_error''),
                                           (''message'', JStr ''Server error'')]\<rparr>)
   \<and> fetch_calls (snd (request URL_table parseInt_table (\<lambda>i. Resolves response_500) (\<lambda>i. 0) sample_client
            \<lparr>path = ''/v1/messages''\<rparr>)) = 4
   \<and> sleeps (snd (request URL_table parseInt_table (\<lambda>i. Resolves response_500) (\<lambda>i. 0) sample_client
            \<lparr>path = ''/v1/messages''\<rparr>)) = [1000, 2000, 4000]"
    using request_retry_policy [OF url, where fetch = "\<lambda>i. Resolves response_500"
        and random = "\<lambda>i. 0"]
      mr ao nr bk upt3 parse_500
    by simp
  show ?thesis using a b by blast
qed

subsection \<open>Claims about rate limits\<close>

text \<open>
  Claim C5, as the code has it. For every HTTP status and every wire body whose error
  code is \<open>rate_limit_exceeded\<close>, the factory returns a \<open>RateLimitError\<close> carrying that
  status, whose \<open>retryAfter\<close> is \<open>body.retryAfter\<close> when that field is present and truthy
  (a number other than 0 in particular), and 60 when it is absent or falsy. When the
  first attempt receives a response with a status outside 200 to 299, a JSON content type
  and such a body with \<open>retryAfter: 45\<close>, \<open>request\<close> fails with a \<open>RateLimitError\<close>
  carrying 45 after exactly one invocation of \<open>fetch\<close> and no sleep.
\<close>

theorem rate_limit_retryAfter_truthy:
  assumes "get_prop body ''error'' = Some (JStr ''rate_limit_exceeded'')"
  shows "is_RateLimitError (fromResponse sc body)
       \<and> statusCode (fromResponse sc body) = Some sc
       \<and> (get_prop body ''retryAfter'' = Some v \<and> truthy (Some v)
            \<longrightarrow> kind (fromResponse sc body) = RateLimit v)
       \<and> (get_prop body ''retryAfter'' = Some (JNum x) \<and> x \<noteq> 0
            \<longrightarrow> kind (fromResponse sc body) = RateLimit (JNum x))
       \<and> (\<not> truthy (get_prop body ''retryAfter'')
            \<longrightarrow> kind (fromResponse sc body) = RateLimit (JNum 60))
       \<and> (get_prop body ''retryAfter'' = None \<or> get_prop body ''retryAfter'' = Some (JNum 0)
            \<longrightarrow> kind (fromResponse sc body) = RateLimit (JNum 60))
       \<and> (buildUrl newURL this (path options) = Inr url \<and> 0 \<le> maxRetries (config this)
            \<and> fetch 0 = Resolves r \<and> \<not> ok r
            \<and> headers r ''content-type'' = Some ct \<and> str_includes ct ''application/json''
            \<and> json_body r = Some (JObj body)
            \<and> get_prop body ''retryAfter'' = Some (JNum 45)
          \<longrightarrow> (\<exists>e. request newURL parseInt fetch random this options =
                      (Inl (Sendly e),
                       \<lparr>client = updateRateLimitInfo parseInt this (headers r), fetch_calls = 1,
                        sleeps = []\<rparr>)
                    \<and> kind e = RateLimit (JNum 45) \<and> statusCode e = Some (status r)))"
proof -
  note fr = fromResponse_rate_limit [OF assms, of sc]
  have k: "kind (fromResponse sc body) = RateLimit (or_else (get_prop body ''retryAfter'') (JNum 60))"
    and s: "statusCode (fromResponse sc body) = Some sc"
    unfolding fr by (simp_all add: new_error_defs)
  have p1: "is_RateLimitError (fromResponse sc body)"
    using k by (simp add: is_RateLimitError_def)
  have p3: "get_prop body ''retryAfter'' = Some v \<and> truthy (Some v)
            \<longrightarrow> kind (fromResponse sc body) = RateLimit v"
    using k by (auto simp: or_else_Some_truthy)
  have p4: "get_prop body ''retryAfter'' = Some (JNum x) \<and> x \<noteq> 0
            \<longrightarrow> kind (fromResponse sc body) = RateLimit (JNum x)"
    using k by (auto simp: or_else_Some_truthy)
  have p5: "\<not> truthy (get_prop body ''retryAfter'')
            \<longrightarrow> kind (fromResponse sc body) = RateLimit (JNum 60)"
    using k by (auto simp: or_else_falsy)
  have p6: "\<exists>e. request newURL parseInt fetch random this options =
                      (Inl (Sendly e),
                       \<lparr>client = updateRateLimitInfo parseInt this (headers r), fetch_calls = 1,
                        sleeps = []\<rparr>)
                    \<and> kind e = RateLimit (JNum 45) \<and> statusCode e = Some (status r)"
    if h: "buildUrl newURL this (path options) = Inr url" "0 \<le> maxRetries (config this)"
      "fetch 0 = Resolves r" "\<not> ok r" "headers r ''content-type'' = Some ct"
      "str_includes ct ''application/json''" "json_body r = Some (JObj body)"
      "get_prop body ''retryAfter'' = Some (JNum 45)"
  proof -
    obtain e where e: "parseResponse r = Inl (Sendly e)"
      "kind e = RateLimit (or_else (get_prop body ''retryAfter'') (JNum 60))"
      "statusCode e = Some (status r)"
      using parseResponse_rate_limit [OF h(4) h(5) h(6) h(7) assms] by blast
    have k45: "kind e = RateLimit (JNum 45)"
      using e(2) h(8) by (simp add: or_else_def)
    have "rethrown (Sendly e)"
      using k45 by (simp add: is_RateLimitError_def)
    from request_rethrown_first [of newURL this options url fetch r "Sendly e" parseInt random,
        OF h(1) h(2) h(3) e(1) this]
    show ?thesis using k45 e(3) by blast
  qed
  have p7: "get_prop body ''retryAfter'' = None \<or> get_prop body ''retryAfter'' = Some (JNum 0)
            \<longrightarrow> kind (fromResponse sc body) = RateLimit (JNum 60)"
    using p5 by auto
  show ?thesis
    using p1 s p3 p4 p5 p6 p7 by blast
qed

text \<open>
  The body \<open>{"error": "rate_limit_exceeded", "retryAfter": 45}\<close> gives 45, the body
  without \<open>retryAfter\<close> gives 60, and the transport that answers 429 with the first body
  makes \<open>request\<close> fail after one invocation.
\<close>

theorem rate_limit_retryAfter_truthy_witness:
  "kind (fromResponse 429 [(''error'', JStr ''rate_limit_exceeded''), (''retryAfter'', JNum 45)])
     = RateLimit (JNum 45)
   \<and> kind (fromResponse 429 [(''error'', JStr ''rate_limit_exceeded'')]) = RateLimit (JNum 60)
   \<and> (\<exists>e. request URL_table parseInt_table (\<lambda>i. Resolves response_429) (\<lambda>i. 0) sample_client
              \<lparr>path = ''/v1/messages''\<rparr> =
            (Inl (Sendly e), \<lparr>client = sample_client, fetch_calls = 1, sleeps = []\<rparr>)
          \<and> kind e = RateLimit (JNum 45) \<and> statusCode e = Some 429)"
proof -
  let ?b45 = "[(''error'', JStr ''rate_limit_exceeded''), (''retryAfter'', JNum 45)]"
  let ?b = "[(''error'', JStr ''rate_limit_exceeded'')]"
  have e45: "get_prop ?b45 ''error'' = Some (JStr ''rate_limit_exceeded'')"
    and r45: "get_prop ?b45 ''retryAfter'' = Some (JNum 45)"
    and e0: "get_prop ?b ''error'' = Some (JStr ''rate_limit_exceeded'')"
    and r0: "get_prop ?b ''retryAfter'' = None"
    by (simp_all add: get_prop_def)
  have url: "buildUrl URL_table sample_client (path \<lparr>path = ''/v1/messages''\<rparr>) =
               Inr \<lparr>protocol = ''https:'', hostname = ''sendly.live''\<rparr>"
    using buildUrl_sample by simp
  have r: "\<not> ok response_429" "headers response_429 ''content-type'' = Some ''application/json''"
    "str_includes ''application/json'' ''application/json''"
    "json_body response_429 = Some (JObj ?b45)" "status response_429 = 429"
    "0 \<le> maxRetries (config sample_client)"
    "updateRateLimitInfo parseInt_table sample_client (headers response_429) = sample_client"
    by (simp_all add: response_429_def ok_def json_headers_def sample_client_def
          updateRateLimitInfo_def)
  have a: "kind (fromResponse 429 ?b45) = RateLimit (JNum 45)"
    using rate_limit_retryAfter_truthy [OF e45, of 429 "JNum 45" 45] r45 by simp
  have b: "kind (fromResponse 429 ?b) = RateLimit (JNum 60)"
    using rate_limit_retryAfter_truthy [OF e0, of 429] r0 by simp
  have c: "\<exists>e. request URL_table parseInt_table (\<lambda>i. Resolves response_429) (\<lambda>i. 0) sample_client
              \<lparr>path = ''/v1/messages''\<rparr> =
            (Inl (Sendly e), \<lparr>client = sample_client, fetch_calls = 1, sleeps = []\<rparr>)
          \<and> kind e = RateLimit (JNum 45) \<and> statusCode e = Some 429"
    using rate_limit_retryAfter_truthy [OF e45, where sc = 429 and newURL = URL_table
        and this = sample_client and options = "\<lparr>path = ''/v1/messages''\<rparr>"
        and url = "\<lparr>protocol = ''https:'', hostname = ''sendly.live''\<rparr>"
        and fetch = "\<lambda>i. Resolves response_429" and r = response_429
        and ct = "''application/json''" and random = "\<lambda>i. 0" and parseInt = parseInt_table]
      url r r45
    by simp
  show ?thesis using a b c by blast
qed

text \<open>
  Claim C5 as stated fails where it says that a \<open>retryAfter\<close> of 0 is kept: for the body
  \<open>{"error": "rate_limit_exceeded", "retryAfter": 0}\<close> the field is present and is 0, and
  the error carries 60.
\<close>

theorem rate_limit_retryAfter_zero_counterexample:
  "get_prop [(''error'', JStr ''rate_limit_exceeded''), (''retryAfter'', JNum 0)] ''retryAfter''
     = Some (JNum 0)
   \<and> kind (fromResponse 429 [(''error'', JStr ''rate_limit_exceeded''), (''retryAfter'', JNum 0)])
     = RateLimit (JNum 60)
   \<and> kind (fromResponse 429 [(''error'', JStr ''rate_limit_exceeded''), (''retryAfter'', JNum 0)])
     \<noteq> RateLimit (JNum 0)"
  by (simp add: fromResponse_def Let_def or_else_def get_prop_def new_error_defs)

text \<open>
  Claim C9, as the code has it. With the three headers \<open>X-RateLimit-Limit\<close>,
  \<open>X-RateLimit-Remaining\<close> and \<open>X-RateLimit-Reset\<close> present, each with a value that is not
  empty, the snapshot is replaced with what the platform's \<open>parseInt\<close> reads from the
  three values; with any of the three absent, or present with an empty value, the client
  is unchanged; the configuration is never changed. An attempt whose \<open>fetch\<close> resolves to
  a response \<open>r\<close> records the headers of \<open>r\<close> whether \<open>r\<close> is then parsed as a success or
  thrown as an error, and changes nothing else of the client; an attempt whose \<open>fetch\<close>
  rejects leaves the client as it is. After a call of \<open>request\<close>, the client is the
  initial one updated with the headers of the responses received, in order, and its
  configuration is the initial one.
\<close>

theorem rate_limit_tracking:
  "(hs ''X-RateLimit-Limit'' = Some l \<and> hs ''X-RateLimit-Remaining'' = Some rm
      \<and> hs ''X-RateLimit-Reset'' = Some rs \<and> l \<noteq> [] \<and> rm \<noteq> [] \<and> rs \<noteq> []
    \<longrightarrow> updateRateLimitInfo parseInt this hs =
          this\<lparr>rateLimitInfo :=
                 Some \<lparr>limit = parseInt l, remaining = parseInt rm, reset = parseInt rs\<rparr>\<rparr>)
   \<and> (hs ''X-RateLimit-Limit'' = None \<or> hs ''X-RateLimit-Limit'' = Some []
      \<or> hs ''X-RateLimit-Remaining'' = None \<or> hs ''X-RateLimit-Remaining'' = Some []
      \<or> hs ''X-RateLimit-Reset'' = None \<or> hs ''X-RateLimit-Reset'' = Some []
    \<longrightarrow> updateRateLimitInfo parseInt this hs = this)
   \<and> config (updateRateLimitInfo parseInt this hs) = config this
   \<and> (fetch (fetch_calls w) = Resolves r
    \<longrightarrow> snd (try_attempt parseInt fetch w) =
          w\<lparr>fetch_calls := Suc (fetch_calls w),
            client := updateRateLimitInfo parseInt (client w) (headers r)\<rparr>)
   \<and> (fetch (fetch_calls w) = Rejects n m
    \<longrightarrow> client (snd (try_attempt parseInt fetch w)) = client w)
   \<and> client (snd (request newURL parseInt fetch random this options)) =
       foldl (updateRateLimitInfo parseInt) this
         (headers_seen fetch 0
            (fetch_calls (snd (request newURL parseInt fetch random this options))))
   \<and> config (client (snd (request newURL parseInt fetch random this options))) = config this"
proof -
  have p5: "snd (try_attempt parseInt fetch w) =
          w\<lparr>fetch_calls := Suc (fetch_calls w),
            client := updateRateLimitInfo parseInt (client w) (headers r)\<rparr>"
    if "fetch (fetch_calls w) = Resolves r"
    using try_attempt_resolves [of fetch w r parseInt, OF that] by simp
  have p6: "client (snd (try_attempt parseInt fetch w)) = client w"
    if "fetch (fetch_calls w) = Rejects n m"
    using that by (simp add: try_attempt_def executeRequest_def Let_def)
  show ?thesis
    using updateRateLimitInfo_present [of hs l rm rs parseInt this]
      updateRateLimitInfo_absent [of hs parseInt this]
      updateRateLimitInfo_config [of parseInt this hs]
      p5 p6 request_client [of newURL parseInt fetch random this options]
      request_config [of newURL parseInt fetch random this options]
    by blast
qed

text \<open>
  An exchange carrying the limit 100, the remaining 42 and the reset 60 sets the snapshot
  to the three numbers read from them; a later exchange without the headers leaves it
  there; and after an attempt that receives the first exchange the accessor reports
  them.
\<close>

theorem rate_limit_tracking_witness:
  "updateRateLimitInfo parseInt_table sample_client rate_headers =
     sample_client\<lparr>rateLimitInfo :=
       Some \<lparr>limit = Finite 100, remaining = Finite 42, reset = Finite 60\<rparr>\<rparr>
   \<and> updateRateLimitInfo parseInt_table
        (updateRateLimitInfo parseInt_table sample_client rate_headers) json_headers =
     sample_client\<lparr>rateLimitInfo :=
       Some \<lparr>limit = Finite 100, remaining = Finite 42, reset = Finite 60\<rparr>\<rparr>
   \<and> getRateLimitInfo (client (snd (try_attempt parseInt_table (\<lambda>i. Resolves response_200)
        \<lparr>client = sample_client, fetch_calls = 0, sleeps = []\<rparr>))) =
     Some \<lparr>limit = Finite 100, remaining = Finite 42, reset = Finite 60\<rparr>"
proof -
  let ?c = "sample_client\<lparr>rateLimitInfo :=
       Some \<lparr>limit = Finite 100, remaining = Finite 42, reset = Finite 60\<rparr>\<rparr>"
  have h: "rate_headers ''X-RateLimit-Limit'' = Some ''100''"
    "rate_headers ''X-RateLimit-Remaining'' = Some ''42''"
    "rate_headers ''X-RateLimit-Reset'' = Some ''60''"
    "json_headers ''X-RateLimit-Limit'' = None"
    "headers response_200 = rate_headers"
    by (simp_all add: rate_headers_def json_headers_def response_200_def)
  have pi: "parseInt_table ''100'' = Finite 100" "parseInt_table ''42'' = Finite 42"
    "parseInt_table ''60'' = Finite 60"
    by (simp_all add: parseInt_table_def)
  have a: "updateRateLimitInfo parseInt_table sample_client rate_headers = ?c"
    using rate_limit_tracking [where hs = rate_headers and l = "''100''" and rm = "''42''"
        and rs = "''60''" and this = sample_client and parseInt = parseInt_table] h pi
    by simp
  have b: "updateRateLimitInfo parseInt_table ?c json_headers = ?c"
    using rate_limit_tracking [where hs = json_headers and this = "?c"
        and parseInt = parseInt_table] h
    by simp
  have c: "snd (try_attempt parseInt_table (\<lambda>i. Resolves response_200)
        \<lparr>client = sample_client, fetch_calls = 0, sleeps = []\<rparr>) =
      \<lparr>client = updateRateLimitInfo parseInt_table sample_client rate_headers,
       fetch_calls = 1, sleeps = []\<rparr>"
    using rate_limit_tracking [where fetch = "\<lambda>i. Resolves response_200"
        and w = "\<lparr>client = sample_client, fetch_calls = 0, sleeps = []\<rparr>"
        and r = response_200 and parseInt = parseInt_table] h
    by simp
  show ?thesis
    using a b c by (simp add: getRateLimitInfo_def)
qed

text \<open>
  Claim C9 as stated fails for a header that is present with an empty value: with
  \<open>X-RateLimit-Limit\<close> empty and the two other headers present, the three headers are all
  present, and the snapshot is not replaced (it remains absent).
\<close>

theorem rate_limit_empty_header_counterexample:
  "empty_limit_headers ''X-RateLimit-Limit'' = Some []
   \<and> empty_limit_headers ''X-RateLimit-Remaining'' = Some ''42''
   \<and> empty_limit_headers ''X-RateLimit-Reset'' = Some ''60''
   \<and> rateLimitInfo sample_client = None
   \<and> rateLimitInfo (updateRateLimitInfo parseInt_table sample_client empty_limit_headers) = None
   \<and> rateLimitInfo (updateRateLimitInfo parseInt_table sample_client empty_limit_headers)
       \<noteq> Some \<lparr>limit = parseInt_table [], remaining = parseInt_table ''42'',
                reset = parseInt_table ''60''\<rparr>"
  by (simp add: updateRateLimitInfo_def empty_limit_headers_def sample_client_def)

subsection \<open>Claims about construction\<close>

text \<open>
  Claim C10. When the public constructor \<open>Sendly\<close> accepts a configuration object, a
  \<open>timeout\<close> of 0 has been replaced by the default 30000 (as an absent one is), whereas a
  \<open>maxRetries\<close> of 0 has been kept (only an absent one becomes the default 3); with
  \<open>maxRetries = 0\<close> a call of \<open>request\<close> whose URL can be built invokes \<open>fetch\<close> exactly
  once and never sleeps, whatever the transport does.
\<close>

theorem constructor_defaulting_asymmetry:
  assumes "Sendly_constructor newURL (ConfigObject cfg) = Inr s"
  shows "(opt_timeout cfg = Some 0 \<longrightarrow> timeout (config (http s)) = 30000)
       \<and> (opt_timeout cfg = None \<longrightarrow> timeout (config (http s)) = 30000)
       \<and> (opt_maxRetries cfg = None \<longrightarrow> maxRetries (config (http s)) = 3)
       \<and> (opt_maxRetries cfg = Some 0
            \<longrightarrow> maxRetries (config (http s)) = 0
              \<and> (buildUrl newURL' (http s) (path options) = Inr url
                  \<longrightarrow> fetch_calls (snd (request newURL' parseInt fetch random (http s) options)) = 1
                    \<and> sleeps (snd (request newURL' parseInt fetch random (http s) options)) = []))"
proof -
  note c = Sendly_constructor_config [OF assms]
  have t0: "opt_timeout cfg = Some 0 \<longrightarrow> timeout (config (http s)) = 30000"
    and t1: "opt_timeout cfg = None \<longrightarrow> timeout (config (http s)) = 30000"
    using c by (auto simp: num_or_def DEFAULT_TIMEOUT2_def)
  have m1: "opt_maxRetries cfg = None \<longrightarrow> maxRetries (config (http s)) = 3"
    using c by (auto simp: nullish_or_def DEFAULT_MAX_RETRIES2_def)
  have m0: "maxRetries (config (http s)) = 0" if "opt_maxRetries cfg = Some 0"
    using c that by (simp add: nullish_or_def)
  show ?thesis
    using t0 t1 m1 m0 request_single_attempt [of newURL' "http s" options url parseInt fetch random]
    by blast
qed

text \<open>
  The configuration \<open>{apiKey: "sk_test_v1_abc123", timeout: 0, maxRetries: 0}\<close>: the
  client has the timeout 30000 and \<open>maxRetries = 0\<close>, and a request against a transport
  that always answers 500 invokes it once.
\<close>

theorem constructor_defaulting_asymmetry_witness:
  "Sendly_constructor URL_table
     (ConfigObject \<lparr>opt_apiKey = ''sk_test_v1_abc123'', opt_baseUrl = None,
                    opt_timeout = Some 0, opt_maxRetries = Some 0\<rparr>) =
     Inr \<lparr>sendly_config = \<lparr>apiKey = ''sk_test_v1_abc123'', baseUrl = ''https://sendly.live/api'',
                            timeout = 30000, maxRetries = 0\<rparr>,
          http = \<lparr>config = \<lparr>apiKey = ''sk_test_v1_abc123'', baseUrl = ''https://sendly.live/api'',
                            timeout = 30000, maxRetries = 0\<rparr>,
                  rateLimitInfo = None\<rparr>\<rparr>
   \<and> fetch_calls (snd (request URL_table parseInt_table (\<lambda>i. Resolves response_500) (\<lambda>i. 0)
        \<lparr>config = \<lparr>apiKey = ''sk_test_v1_abc123'', baseUrl = ''https://sendly.live/api'',
                    timeout = 30000, maxRetries = 0\<rparr>,
          rateLimitInfo = None\<rparr> \<lparr>path = ''/v1/messages''\<rparr>)) = 1
   \<and> sleeps (snd (request URL_table parseInt_table (\<lambda>i. Resolves response_500) (\<lambda>i. 0)
        \<lparr>config = \<lparr>apiKey = ''sk_test_v1_abc123'', baseUrl = ''https://sendly.live/api'',
                    timeout = 30000, maxRetries = 0\<rparr>,
          rateLimitInfo = None\<rparr> \<lparr>path = ''/v1/messages''\<rparr>)) = []"
proof -
  let ?h = "\<lparr>config = \<lparr>apiKey = ''sk_test_v1_abc123'', baseUrl = ''https://sendly.live/api'',
                    timeout = 30000, maxRetries = 0\<rparr>,
          rateLimitInfo = None\<rparr>"
  have ctor: "Sendly_constructor URL_table
     (ConfigObject \<lparr>opt_apiKey = ''sk_test_v1_abc123'', opt_baseUrl = None,
                    opt_timeout = Some 0, opt_maxRetries = Some 0\<rparr>) =
     Inr \<lparr>sendly_config = config ?h, http = ?h\<rparr>"
    by (simp add: Sendly_constructor_def HttpClient_constructor_def URL_table_def Let_def
      isValidApiKey_def token_char_def str_or_def num_or_def nullish_or_def
      DEFAULT_BASE_URL2_def DEFAULT_TIMEOUT2_def DEFAULT_MAX_RETRIES2_def)
  have url: "buildUrl URL_table ?h (path \<lparr>path = ''/v1/messages''\<rparr>) =
               Inr \<lparr>protocol = ''https:'', hostname = ''sendly.live''\<rparr>"
    by (simp add: buildUrl_def URL_table_def Let_def)
  show ?thesis
    using constructor_defaulting_asymmetry [OF ctor, where newURL' = URL_table
        and options = "\<lparr>path = ''/v1/messages''\<rparr>"
        and url = "\<lparr>protocol = ''https:'', hostname = ''sendly.live''\<rparr>"
        and fetch = "\<lambda>i. Resolves response_500" and random = "\<lambda>i. 0"
        and parseInt = parseInt_table]
      ctor url
    by simp
qed

text \<open>
  What the constructor does on every configuration: it throws for a key that does not
  match the credential pattern, whatever the base URL; with a matching key and a base URL
  that parses, it returns a client when the URL is HTTPS or its host is \<open>localhost\<close> or
  \<open>127.0.0.1\<close>, and it throws when the URL is not HTTPS and its host neither contains
  the text \<open>localhost\<close> nor is \<open>127.0.0.1\<close>. The constructor takes no transport: it
  returns or throws before any network use.
\<close>

lemma HttpClient_constructor_cases:
  "(\<not> isValidApiKey (opt_apiKey cfg)
      \<longrightarrow> HttpClient_constructor newURL cfg = Inl InvalidApiKeyFormat)
   \<and> (isValidApiKey (opt_apiKey cfg)
        \<and> newURL (str_or (opt_baseUrl cfg) DEFAULT_BASE_URL) = Some u
        \<and> (protocol u = ''https:'' \<or> hostname u = ''localhost'' \<or> hostname u = ''127.0.0.1'')
      \<longrightarrow> (\<exists>c. HttpClient_constructor newURL cfg = Inr c))
   \<and> (isValidApiKey (opt_apiKey cfg)
        \<and> newURL (str_or (opt_baseUrl cfg) DEFAULT_BASE_URL) = Some u
        \<and> protocol u \<noteq> ''https:'' \<and> \<not> str_includes (hostname u) ''localhost''
        \<and> hostname u \<noteq> ''127.0.0.1''
      \<longrightarrow> HttpClient_constructor newURL cfg = Inl InsecureBaseUrl)
   \<and> (isValidApiKey (opt_apiKey cfg)
        \<and> newURL (str_or (opt_baseUrl cfg) DEFAULT_BASE_URL) = None
      \<longrightarrow> HttpClient_constructor newURL cfg = Inl TypeError)"
proof -
  have "str_includes ''localhost'' ''localhost''"
    by simp
  then show ?thesis
    by (auto simp: HttpClient_constructor_def Let_def)
qed

text \<open>
  Claim C1 at the configuration
  \<open>{apiKey: "sk_test_v1_abc123", baseUrl: "http://localhost.evil.example"}\<close>. The key
  matches the credential pattern; the base URL is not HTTPS and its host is neither
  \<open>localhost\<close> nor \<open>127.0.0.1\<close>, but contains the text \<open>localhost\<close>: the constructor
  returns a client, where the claim (and the message of the error that the constructor
  throws for other plain-HTTP hosts) says that it fails.
\<close>

theorem constructor_accepts_remote_http_host:
  "isValidApiKey ''sk_test_v1_abc123''
   \<and> URL_table ''http://localhost.evil.example''
       = Some \<lparr>protocol = ''http:'', hostname = ''localhost.evil.example''\<rparr>
   \<and> HttpClient_constructor URL_table
       \<lparr>opt_apiKey = ''sk_test_v1_abc123'', opt_baseUrl = Some ''http://localhost.evil.example'',
        opt_timeout = None, opt_maxRetries = None\<rparr>
     = Inr \<lparr>config = \<lparr>apiKey = ''sk_test_v1_abc123'', baseUrl = ''http://localhost.evil.example'',
                       timeout = 30000, maxRetries = 3\<rparr>,
            rateLimitInfo = None\<rparr>"
  by (simp add: HttpClient_constructor_def URL_table_def Let_def
      isValidApiKey_def token_char_def str_or_def num_or_def nullish_or_def
      DEFAULT_BASE_URL_def DEFAULT_TIMEOUT_def DEFAULT_MAX_RETRIES_def)

subsection \<open>Claims about the webhook verifier\<close>

text \<open>
  Claim C6, as the code has it. \<open>generateWebhookSignature\<close> is a function of the payload
  and the secret (equal arguments give equal signatures), and its result is \<open>sha256=\<close>
  followed by 64 lower-case hexadecimal digits. \<open>verifyWebhookSignature\<close> accepts the
  signature that \<open>generateWebhookSignature\<close> computes for a payload and a secret exactly
  when neither the payload nor the secret is empty.
\<close>

theorem sign_deterministic_verify_roundtrip:
  "(payload' = payload \<and> secret' = secret \<longrightarrow>
      generateWebhookSignature payload' secret' = generateWebhookSignature payload secret)
   \<and> take 7 (generateWebhookSignature payload secret) = ''sha256=''
   \<and> length (generateWebhookSignature payload secret) = 71
   \<and> set (drop 7 (generateWebhookSignature payload secret)) \<subseteq> set ''0123456789abcdef''
   \<and> (payload \<noteq> [] \<and> secret \<noteq> [] \<longrightarrow>
        verifyWebhookSignature (Some payload)
          (Some (generateWebhookSignature payload secret)) (Some secret))
   \<and> (payload = [] \<or> secret = [] \<longrightarrow>
        \<not> verifyWebhookSignature (Some payload)
          (Some (generateWebhookSignature payload secret)) (Some secret))"
  using signature_format [of payload secret] by (auto simp: verify_iff)

text \<open>The payload of an event and the secret \<open>whsec_1\<close>.\<close>

theorem sign_deterministic_verify_roundtrip_witness:
  "event_payload \<noteq> [] \<and> ''whsec_1'' \<noteq> []
   \<and> verifyWebhookSignature (Some event_payload)
        (Some (generateWebhookSignature event_payload ''whsec_1'')) (Some ''whsec_1'')"
  using sign_deterministic_verify_roundtrip [of event_payload event_payload "''whsec_1''" "''whsec_1''"]
  by (simp add: event_payload_def)

text \<open>
  Claim C6 as stated fails for an empty payload: \<open>verifyWebhookSignature\<close> returns false
  before it compares anything, also for the signature computed for that payload.
\<close>

theorem verify_roundtrip_empty_payload_counterexample:
  "\<not> verifyWebhookSignature (Some []) (Some (generateWebhookSignature [] ''whsec_1''))
       (Some ''whsec_1'')"
  by (simp add: verifyWebhookSignature_def)

text \<open>
  Claim C7. \<open>verifyWebhookSignature\<close> returns a truth value on all arguments (the
  \<open>RangeError\<close> of \<open>timingSafeEqual\<close> is caught); it returns false when the payload, the
  signature or the secret is absent or empty, and it returns false whenever the supplied
  signature differs from the signature expected for the payload and the secret, whatever
  the difference is (some byte, the length, or the secret it was computed with).
\<close>

theorem verify_rejects:
  "((payload = None \<or> payload = Some [] \<or> signature = None \<or> signature = Some []
      \<or> secret = None \<or> secret = Some [])
     \<longrightarrow> verifyWebhookSignature payload signature secret = False)
   \<and> (signature \<noteq> Some (generateWebhookSignature p sk)
     \<longrightarrow> verifyWebhookSignature (Some p) signature (Some sk) = False)"
  by (auto simp: verify_iff generateWebhookSignature_nonempty
        generateWebhookSignature_nonempty [symmetric])

text \<open>
  An empty signature, a signature of another length, and the expected signature with its
  first byte replaced are all rejected.
\<close>

theorem verify_rejects_witness:
  "verifyWebhookSignature (Some event_payload) (Some []) (Some ''whsec_1'') = False
   \<and> verifyWebhookSignature (Some event_payload) None (Some ''whsec_1'') = False
   \<and> verifyWebhookSignature (Some event_payload) (Some ''sha256=00'') (Some ''whsec_1'') = False
   \<and> verifyWebhookSignature (Some event_payload)
        (Some (CHR ''S'' # tl (generateWebhookSignature event_payload ''whsec_1'')))
        (Some ''whsec_1'') = False"
proof -
  let ?sig = "generateWebhookSignature event_payload ''whsec_1''"
  have d1: "Some (''sha256=00'') \<noteq> Some ?sig"
    using signature_length_differs [of "''sha256=00''" event_payload "''whsec_1''"] by simp
  have d2: "Some (CHR ''S'' # tl ?sig) \<noteq> Some ?sig"
    by (simp add: generateWebhookSignature_def)
  show ?thesis
    using d1 d2
      verify_rejects [of "Some event_payload" "Some []" "Some ''whsec_1''" event_payload "''whsec_1''"]
      verify_rejects [of "Some event_payload" None "Some ''whsec_1''" event_payload "''whsec_1''"]
      verify_rejects [of "Some event_payload" "Some ''sha256=00''" "Some ''whsec_1''"
         event_payload "''whsec_1''"]
      verify_rejects [of "Some event_payload" "Some (CHR ''S'' # tl ?sig)" "Some ''whsec_1''"
         event_payload "''whsec_1''"]
    by simp
qed

text \<open>
  What \<open>parseWebhookEvent\<close> does on every input. It throws the \<open>WebhookSignatureError\<close>
  exactly when \<open>verifyWebhookSignature\<close> rejects its arguments. When the signature is
  accepted: a payload that does not parse gives the \<open>Error\<close> "Failed to parse webhook
  payload"; a payload that parses to a value other than \<open>null\<close> in which \<open>id\<close>, \<open>type\<close>
  or \<open>createdAt\<close> is absent or falsy gives the \<open>Error\<close> "Invalid webhook event
  structure"; a payload that parses to \<open>null\<close> gives the \<open>TypeError\<close> of reading a
  property of \<open>null\<close>. An event is returned only when the signature is accepted, the
  payload parses to that event, and \<open>id\<close>, \<open>type\<close> and \<open>createdAt\<close> are truthy.
\<close>

lemma parseWebhookEvent_cases:
  "(parseWebhookEvent JSON_parse payload signature secret = Inl WebhookSignatureError
      \<longleftrightarrow> \<not> verifyWebhookSignature payload signature secret)
   \<and> (verifyWebhookSignature (Some p) signature secret \<and> JSON_parse p = None
      \<longrightarrow> parseWebhookEvent JSON_parse (Some p) signature secret = Inl FailedToParsePayload)
   \<and> (verifyWebhookSignature (Some p) signature secret \<and> JSON_parse p = Some ev
        \<and> ev \<noteq> JNull
        \<and> (\<not> truthy (opt_prop ev ''id'') \<or> \<not> truthy (opt_prop ev ''type'')
            \<or> \<not> truthy (opt_prop ev ''createdAt''))
      \<longrightarrow> parseWebhookEvent JSON_parse (Some p) signature secret = Inl InvalidEventStructure)
   \<and> (verifyWebhookSignature (Some p) signature secret \<and> JSON_parse p = Some JNull
      \<longrightarrow> parseWebhookEvent JSON_parse (Some p) signature secret = Inl NullEventTypeError)
   \<and> (parseWebhookEvent JSON_parse payload signature secret = Inr event
      \<longrightarrow> verifyWebhookSignature payload signature secret
          \<and> (\<exists>p. payload = Some p \<and> JSON_parse p = Some event)
          \<and> truthy (opt_prop event ''id'') \<and> truthy (opt_prop event ''type'')
          \<and> truthy (opt_prop event ''createdAt''))"
proof -
  have a: "parseWebhookEvent JSON_parse (Some p) signature secret = Inl FailedToParsePayload"
    if "verifyWebhookSignature (Some p) signature secret" "JSON_parse p = None"
    using that by (simp add: parseWebhookEvent_def)
  have b: "parseWebhookEvent JSON_parse (Some p) signature secret = Inl InvalidEventStructure"
    if "verifyWebhookSignature (Some p) signature secret" "JSON_parse p = Some ev" "ev \<noteq> JNull"
      "\<not> truthy (opt_prop ev ''id'') \<or> \<not> truthy (opt_prop ev ''type'')
            \<or> \<not> truthy (opt_prop ev ''createdAt'')"
    using that by (auto simp: parseWebhookEvent_def)
  have c: "parseWebhookEvent JSON_parse (Some p) signature secret = Inl NullEventTypeError"
    if "verifyWebhookSignature (Some p) signature secret" "JSON_parse p = Some JNull"
    using that by (simp add: parseWebhookEvent_def)
  show ?thesis
    using parse_signature_error_iff [of JSON_parse payload signature secret]
      parse_returns [of JSON_parse payload signature secret event] a b c
    by blast
qed

text \<open>
  A signed event is returned; the same payload with another signature gives the
  signature error; a signed payload that is not JSON and a signed payload without \<open>id\<close>
  give the two structural errors.
\<close>

lemma parseWebhookEvent_scenarios:
  "parseWebhookEvent JSON_parse_table (Some event_payload)
       (Some (generateWebhookSignature event_payload ''whsec_1'')) (Some ''whsec_1'')
     = Inr (JObj [(''id'', JStr ''evt_1''), (''type'', JStr ''message.delivered''),
                  (''createdAt'', JStr ''2025-01-01T00:00:00Z'')])
   \<and> parseWebhookEvent JSON_parse_table (Some event_payload) (Some ''sha256=00'')
       (Some ''whsec_1'') = Inl WebhookSignatureError
   \<and> parseWebhookEvent JSON_parse_table (Some ''not json'')
       (Some (generateWebhookSignature ''not json'' ''whsec_1'')) (Some ''whsec_1'')
     = Inl FailedToParsePayload
   \<and> parseWebhookEvent JSON_parse_table (Some partial_payload)
       (Some (generateWebhookSignature partial_payload ''whsec_1'')) (Some ''whsec_1'')
     = Inl InvalidEventStructure"
proof -
  have v: "verifyWebhookSignature (Some q) (Some (generateWebhookSignature q ''whsec_1''))
             (Some ''whsec_1'')" if "q \<noteq> []" for q
    using that by (simp add: verify_iff)
  have ne: "event_payload \<noteq> []" "partial_payload \<noteq> []" "''not json'' \<noteq> []"
    by (simp_all add: event_payload_def partial_payload_def)
  have nv: "\<not> verifyWebhookSignature (Some event_payload) (Some ''sha256=00'') (Some ''whsec_1'')"
    using signature_length_differs [of "''sha256=00''" event_payload "''whsec_1''"]
    by (simp add: verify_iff)
  have j: "JSON_parse_table event_payload =
             Some (JObj [(''id'', JStr ''evt_1''), (''type'', JStr ''message.delivered''),
                         (''createdAt'', JStr ''2025-01-01T00:00:00Z'')])"
    "JSON_parse_table ''not json'' = None"
    "JSON_parse_table partial_payload = Some (JObj [(''type'', JStr ''message.delivered'')])"
    by (simp_all add: JSON_parse_table_def event_payload_def partial_payload_def)
  show ?thesis
    using v [OF ne(1)] v [OF ne(2)] v [OF ne(3)] nv j
    by (simp add: parseWebhookEvent_def get_prop_def)
qed

text \<open>
  Claim C8 at the payload \<open>null\<close>, signed with the secret \<open>whsec_1\<close>. The signature is
  accepted and \<open>JSON.parse\<close> returns \<open>null\<close>, a payload without \<open>id\<close>, \<open>type\<close> and
  \<open>createdAt\<close>. The code reads \<open>event.id\<close> outside the \<open>try\<close> block and throws the
  \<open>TypeError\<close> of reading a property of \<open>null\<close>, where the claim says that it raises the
  structural error, which is the \<open>Error\<close> "Invalid webhook event structure" that the
  check on that very line is written to throw.
\<close>

theorem parseWebhookEvent_null_payload_type_error:
  "verifyWebhookSignature (Some ''null'')
       (Some (generateWebhookSignature ''null'' ''whsec_1'')) (Some ''whsec_1'')
   \<and> JSON_parse_table ''null'' = Some JNull
   \<and> opt_prop JNull ''id'' = None
   \<and> parseWebhookEvent JSON_parse_table (Some ''null'')
       (Some (generateWebhookSignature ''null'' ''whsec_1'')) (Some ''whsec_1'')
     = Inl NullEventTypeError"
proof -
  have v: "verifyWebhookSignature (Some ''null'')
       (Some (generateWebhookSignature ''null'' ''whsec_1'')) (Some ''whsec_1'')"
    by (simp add: verify_iff)
  have j: "JSON_parse_table ''null'' = Some JNull"
    by (simp add: JSON_parse_table_def event_payload_def partial_payload_def)
  show ?thesis
    using v j by (simp add: parseWebhookEvent_def)
qed

text \<open>
  At that payload the error thrown is neither of the two structural errors nor the
  signature error.
\<close>

theorem parseWebhookEvent_null_payload_type_error_witness:
  "parseWebhookEvent JSON_parse_table (Some ''null'')
       (Some (generateWebhookSignature ''null'' ''whsec_1'')) (Some ''whsec_1'')
     \<notin> {Inl InvalidEventStructure, Inl FailedToParsePayload, Inl WebhookSignatureError}"
  using parseWebhookEvent_null_payload_type_error by simp

end
